theory Spec2Isabelle
  imports Complex_Main
begin


section \<open>Results, errors and the outside world\<close>

text \<open>
  A Go function returning \<open>(T, error)\<close> is modelled as a value of \<open>string + T\<close>:
  \<open>Inl msg\<close> is a non-nil error whose \<open>Error()\<close> text is \<open>msg\<close>, \<open>Inr v\<close> is the
  value returned with a nil error. Wrapping with \<open>fmt.Errorf("...: %w", err)\<close> becomes
  concatenation of the texts. A runtime panic (indexing an empty slice) is kept apart
  from returned errors.
\<close>

datatype failure = Err string | Panic

subsection \<open>Chat messages and tool calls (the go-openai types the code uses)\<close>

record FunctionCall =
  Name :: string
  Arguments :: string

record ToolCall =
  ID :: string
  Function :: FunctionCall

text \<open>
  \<open>ToolCalls\<close> is a Go slice compared against \<open>nil\<close> by the runner: \<open>None\<close> is the nil
  slice, \<open>Some []\<close> an empty slice that is not nil.
\<close>

record ChatCompletionMessage =
  Role :: string
  Content :: string
  ToolCalls :: "ToolCall list option"
  ToolCallID :: string

definition ChatMessageRoleSystem :: string where "ChatMessageRoleSystem = ''system''"
definition ChatMessageRoleUser :: string where "ChatMessageRoleUser = ''user''"
definition ChatMessageRoleAssistant :: string where "ChatMessageRoleAssistant = ''assistant''"
definition ChatMessageRoleTool :: string where "ChatMessageRoleTool = ''tool''"

text \<open>A tool definition advertised to the LLM; its contents are never inspected here.\<close>

type_synonym Tool = string

record ChatCompletionRequest =
  Model :: string
  Messages :: "ChatCompletionMessage list"
  Tools :: "Tool list"
  Temperature :: rat

subsection \<open>External operations and the history of events\<close>

text \<open>
  The functions of package \<open>tool\<close> whose source is not part of the listing, each
  returning \<open>(string, error)\<close> (\<open>WriteFile\<close> returns only an error: its \<open>Inr\<close> text is
  unused).
\<close>

type_synonym ArgsMap = "(string \<times> string) list"

datatype tool_op =
    ShellTool_Run ArgsMap string
  | RunShellScript string "string list"
  | PythonTool_Run ArgsMap string
  | ReadFile string
  | WriteFile string string
  | DuckDuckGoSearch string
  | WikipediaSearch string
  | WebFetch string
  | TavilySearch string
  | TavilySearchWithLimit string nat

record Cmd =
  cmd_Path :: string
  cmd_Args :: "string list"
  cmd_Env :: "string list"

text \<open>
  Every interaction with the outside world is recorded as an event carrying the call and
  what it returned. A run of a function yields, besides its result, the list of events it
  performed, in order.
\<close>

datatype event =
    ChatCompletion ChatCompletionRequest "string + ChatCompletionMessage list"
  | Scan string
  | ToolOp tool_op "string + string"
  | LookedPath string "string + string"
  | ReadEnviron "string list"
  | RanCmd Cmd "string option \<times> string \<times> string"
  | Statted string "string option"
  | Logged string
  | Reviewed string "string + bool"

text \<open>
  The LLM endpoint: \<open>client.CreateChatCompletion(ctx, req)\<close>, returning an error or the
  messages of \<open>resp.Choices\<close>, in order. Like every external operation it may depend on
  everything that happened before (the history).
\<close>

type_synonym Client = "event list \<Rightarrow> ChatCompletionRequest \<Rightarrow> string + ChatCompletionMessage list"

text \<open>
  The operating system and the back-ends: \<open>Scanln\<close> is what \<open>fmt.Scanln(&input)\<close> leaves
  in \<open>input\<close> (the empty string when nothing could be read); \<open>Stat\<close> is the error of
  \<open>os.Stat\<close> (\<open>None\<close> for nil); \<open>cmd_Run\<close> is the error of \<open>cmd.Run()\<close> with what the
  process wrote to the stdout and stderr buffers.
\<close>

record world =
  tool_pkg :: "event list \<Rightarrow> tool_op \<Rightarrow> string + string"
  LookPath :: "event list \<Rightarrow> string \<Rightarrow> string + string"
  Environ :: "event list \<Rightarrow> string list"
  cmd_Run :: "event list \<Rightarrow> Cmd \<Rightarrow> string option \<times> string \<times> string"
  Stat :: "event list \<Rightarrow> string \<Rightarrow> string option"
  Scanln :: "event list \<Rightarrow> string"

text \<open>
  Pure library functions the code calls: \<open>json.Unmarshal\<close> into each anonymous parameter
  struct (one decoder per struct shape), \<open>filepath.IsAbs\<close> and \<open>filepath.Join\<close>.
\<close>

record lib =
  unmarshal_code :: "string \<Rightarrow> string + (string \<times> ArgsMap)"
  unmarshal_script :: "string \<Rightarrow> string + (string \<times> string list)"
  unmarshal_filePath :: "string \<Rightarrow> string + string"
  unmarshal_write :: "string \<Rightarrow> string + (string \<times> string)"
  unmarshal_query :: "string \<Rightarrow> string + string"
  unmarshal_url :: "string \<Rightarrow> string + string"
  unmarshal_args :: "string \<Rightarrow> string + string list"
  IsAbs :: "string \<Rightarrow> bool"
  Join :: "string \<Rightarrow> string \<Rightarrow> string"

definition call_tool :: "world \<Rightarrow> event list \<Rightarrow> tool_op \<Rightarrow> (string + string) \<times> event list" where
  "call_tool w h op = (let r = tool_pkg w h op in (r, [ToolOp op r]))"

section \<open>Package tool: RunPythonScript (src/tool/python\_tool.go)\<close>

text \<open>
  Lines 21-32: build the command, run it, and return stdout followed by stderr, or the
  wrapped error of the run.
\<close>

definition run_python ::
  "world \<Rightarrow> event list \<Rightarrow> string \<Rightarrow> string \<Rightarrow> string list \<Rightarrow> (string + string) \<times> event list" where
  "run_python w h pythonExe scriptPath args =
     (let env = Environ w h;
          cmd = \<lparr>cmd_Path = pythonExe, cmd_Args = pythonExe # ([scriptPath] @ args), cmd_Env = env\<rparr>;
          r = cmd_Run w (h @ [ReadEnviron env]) cmd;
          es = [ReadEnviron env, RanCmd cmd r]
      in case r of
           (Some err, stdout, stderr) \<Rightarrow>
             (Inl (''failed to run python script '' @ [CHR 0x27] @ scriptPath @ [CHR 0x27]
                   @ '' with '' @ [CHR 0x27] @ pythonExe @ [CHR 0x27] @ '': '' @ err
                   @ [CHR 0x0A] @ ''Stdout: '' @ stdout @ [CHR 0x0A] @ ''Stderr: '' @ stderr), es)
         | (None, stdout, stderr) \<Rightarrow> (Inr (stdout @ stderr), es))"

definition RunPythonScript ::
  "world \<Rightarrow> event list \<Rightarrow> string \<Rightarrow> string list \<Rightarrow> (string + string) \<times> event list" where
  "RunPythonScript w h scriptPath args =
     (let r3 = LookPath w h ''python3''; es1 = [LookedPath ''python3'' r3] in
      case r3 of
        Inr pythonExe \<Rightarrow>
          (let (r, es) = run_python w (h @ es1) pythonExe scriptPath args in (r, es1 @ es))
      | Inl _ \<Rightarrow>
          (let r2 = LookPath w (h @ es1) ''python''; es2 = es1 @ [LookedPath ''python'' r2] in
           case r2 of
             Inl err \<Rightarrow> (Inl (''failed to find python3 or python in PATH: '' @ err), es2)
           | Inr pythonExe \<Rightarrow>
               (let (r, es) = run_python w (h @ es2) pythonExe scriptPath args in (r, es2 @ es))))"

section \<open>The skill runner (package goskills, src/README.md lines 783-1123)\<close>

record RunnerConfig =
  APIKey :: string
  APIBase :: string
  cfg_Model :: string
  SkillsDir :: string
  Verbose :: bool
  AutoApproveTools :: bool
  AllowedScripts :: "string list"

text \<open>
  Modelled from the spec: the declaration of \<open>SkillPackage\<close> is not part of the listing.
  Of the fields the spec gives it (meta, body, path, resources) the runner's loop reads
  the body and the path. \<open>GenerateToolDefinitions\<close> is declared elsewhere in the
  repository too: its result for the selected skill (the tools advertised and the map
  from script tool names to script paths) is a parameter.
\<close>

record SkillPackage =
  Body :: string
  Path :: string

subsection \<open>executeToolCall (lines 1005-1123)\<close>

definition HasSuffix :: "string \<Rightarrow> string \<Rightarrow> bool" where
  "HasSuffix s suffix = (length suffix \<le> length s \<and> drop (length s - length suffix) s = suffix)"

text \<open>Lines 1119-1122: an error of the back-end is wrapped with the tool's name.\<close>

definition tool_failed :: "string \<Rightarrow> (string + string) \<times> event list \<Rightarrow> (string + string) \<times> event list" where
  "tool_failed name r =
     (case r of
        (Inl err, es) \<Rightarrow> (Inl (''tool execution failed for '' @ name @ '': '' @ err), es)
      | (Inr toolOutput, es) \<Rightarrow> (Inr toolOutput, es))"

text \<open>Lines 1055-1061: the path handed to the file reader by \<open>read_file\<close>.\<close>

definition read_file_path :: "lib \<Rightarrow> world \<Rightarrow> event list \<Rightarrow> string \<Rightarrow> string \<Rightarrow> string \<times> event list" where
  "read_file_path L w h skillPath filePath =
     (if \<not> IsAbs L filePath \<and> skillPath \<noteq> [] then
        (let resolvedPath = Join L skillPath filePath;
             err = Stat w h resolvedPath
         in (if err = None then resolvedPath else filePath, [Statted resolvedPath err]))
      else (filePath, []))"

definition executeToolCall ::
  "lib \<Rightarrow> world \<Rightarrow> event list \<Rightarrow> ToolCall \<Rightarrow> (string \<rightharpoonup> string) \<Rightarrow> string
     \<Rightarrow> (string + string) \<times> event list" where
  "executeToolCall L w h toolCall scriptMap skillPath =
     (let name = Name (Function toolCall); arguments = Arguments (Function toolCall) in
      if name = ''run_shell_code'' then
        (case unmarshal_code L arguments of
           Inl err \<Rightarrow> (Inl (''failed to unmarshal run_shell_code arguments: '' @ err), [])
         | Inr (code, args) \<Rightarrow> tool_failed name (call_tool w h (ShellTool_Run args code)))
      else if name = ''run_shell_script'' then
        (case unmarshal_script L arguments of
           Inl err \<Rightarrow> (Inl (''failed to unmarshal run_shell_script arguments: '' @ err), [])
         | Inr (scriptPath, args) \<Rightarrow> tool_failed name (call_tool w h (RunShellScript scriptPath args)))
      else if name = ''run_python_code'' then
        (case unmarshal_code L arguments of
           Inl err \<Rightarrow> (Inl (''failed to unmarshal run_python_code arguments: '' @ err), [])
         | Inr (code, args) \<Rightarrow> tool_failed name (call_tool w h (PythonTool_Run args code)))
      else if name = ''run_python_script'' then
        (case unmarshal_script L arguments of
           Inl err \<Rightarrow> (Inl (''failed to unmarshal run_python_script arguments: '' @ err), [])
         | Inr (scriptPath, args) \<Rightarrow> tool_failed name (RunPythonScript w h scriptPath args))
      else if name = ''read_file'' then
        (case unmarshal_filePath L arguments of
           Inl err \<Rightarrow> (Inl (''failed to unmarshal read_file arguments: '' @ err), [])
         | Inr filePath \<Rightarrow>
             (let (path, es1) = read_file_path L w h skillPath filePath;
                  (r, es2) = call_tool w (h @ es1) (ReadFile path)
              in tool_failed name (r, es1 @ es2)))
      else if name = ''write_file'' then
        (case unmarshal_write L arguments of
           Inl err \<Rightarrow> (Inl (''failed to unmarshal write_file arguments: '' @ err), [])
         | Inr (filePath, content) \<Rightarrow>
             (case call_tool w h (WriteFile filePath content) of
                (Inl err, es) \<Rightarrow> tool_failed name (Inl err, es)
              | (Inr _, es) \<Rightarrow> (Inr (''Successfully wrote to file: '' @ filePath), es)))
      else if name = ''duckduckgo_search'' then
        (case unmarshal_query L arguments of
           Inl err \<Rightarrow> (Inl (''failed to unmarshal duckduckgo_search arguments: '' @ err), [])
         | Inr query \<Rightarrow> tool_failed name (call_tool w h (DuckDuckGoSearch query)))
      else if name = ''wikipedia_search'' then
        (case unmarshal_query L arguments of
           Inl err \<Rightarrow> (Inl (''failed to unmarshal wikipedia_search arguments: '' @ err), [])
         | Inr query \<Rightarrow> tool_failed name (call_tool w h (WikipediaSearch query)))
      else if name = ''web_fetch'' then
        (case unmarshal_url L arguments of
           Inl err \<Rightarrow> (Inl (''failed to unmarshal web_fetch arguments: '' @ err), [])
         | Inr url \<Rightarrow> tool_failed name (call_tool w h (WebFetch url)))
      else
        (case scriptMap name of
           Some scriptPath \<Rightarrow>
             (case (if arguments \<noteq> [] then unmarshal_args L arguments else Inr []) of
                Inl err \<Rightarrow> (Inl (''failed to unmarshal script arguments: '' @ err), [])
              | Inr args \<Rightarrow>
                  tool_failed name
                    (if HasSuffix scriptPath ''.py'' then RunPythonScript w h scriptPath args
                     else call_tool w h (RunShellScript scriptPath args)))
         | None \<Rightarrow> (Inl (''unknown tool: '' @ name), [])))"

subsection \<open>executeSkillWithTools (lines 922-1003)\<close>

text \<open>
  \<open>strings.ToLower\<close> on the bytes of the answer. Only its comparison with \<open>"y"\<close> is
  used, and no letter outside ASCII lowers to \<open>y\<close>, so mapping the ASCII capitals is
  exact for that comparison.
\<close>

definition ToLower_char :: "char \<Rightarrow> char" where
  "ToLower_char c =
     (case map_of (zip ''ABCDEFGHIJKLMNOPQRSTUVWXYZ'' ''abcdefghijklmnopqrstuvwxyz'') c of
        Some l \<Rightarrow> l
      | None \<Rightarrow> c)"

definition ToLower :: "string \<Rightarrow> string" where
  "ToLower s = map ToLower_char s"

definition tool_message :: "string \<Rightarrow> string \<Rightarrow> ChatCompletionMessage" where
  "tool_message tcID content =
     \<lparr>Role = ChatMessageRoleTool, Content = content, ToolCalls = None, ToolCallID = tcID\<rparr>"

text \<open>
  The body of \<open>for _, tc := range msg.ToolCalls\<close> (lines 964-1000), for one call: the
  messages after it and the events it performed. Writes to standard output (the verbose
  diagnostics and the approval prompt) are not recorded.
\<close>

definition tool_call_step ::
  "lib \<Rightarrow> world \<Rightarrow> RunnerConfig \<Rightarrow> (string \<rightharpoonup> string) \<Rightarrow> string \<Rightarrow> event list \<Rightarrow> ToolCall
     \<Rightarrow> ChatCompletionMessage list \<Rightarrow> ChatCompletionMessage list \<times> event list" where
  "tool_call_step L w cfg scriptMap skillPath h tc messages =
     (let (denied, es0) =
            (if \<not> AutoApproveTools cfg
             then (let input = Scanln w h in (ToLower input \<noteq> ''y'', [Scan input]))
             else (False, []))
      in if denied
         then (messages @ [tool_message (ID tc) ''Error: User denied tool execution.''], es0)
         else (case executeToolCall L w (h @ es0) tc scriptMap skillPath of
                 (Inl err, es1) \<Rightarrow> (messages @ [tool_message (ID tc) (''Error: '' @ err)], es0 @ es1)
               | (Inr toolOutput, es1) \<Rightarrow> (messages @ [tool_message (ID tc) toolOutput], es0 @ es1)))"

fun tool_calls_loop ::
  "lib \<Rightarrow> world \<Rightarrow> RunnerConfig \<Rightarrow> (string \<rightharpoonup> string) \<Rightarrow> string \<Rightarrow> event list \<Rightarrow> ToolCall list
     \<Rightarrow> ChatCompletionMessage list \<Rightarrow> ChatCompletionMessage list \<times> event list" where
  "tool_calls_loop L w cfg scriptMap skillPath h [] messages = (messages, [])"
| "tool_calls_loop L w cfg scriptMap skillPath h (tc # tcs) messages =
     (case tool_call_step L w cfg scriptMap skillPath h tc messages of
        (messages1, es1) \<Rightarrow>
          (case tool_calls_loop L w cfg scriptMap skillPath (h @ es1) tcs messages1 of
             (messages2, es2) \<Rightarrow> (messages2, es1 @ es2)))"

text \<open>Lines 944-948: the request of one round.\<close>

definition round_request :: "RunnerConfig \<Rightarrow> Tool list \<Rightarrow> ChatCompletionMessage list \<Rightarrow> ChatCompletionRequest" where
  "round_request cfg availableTools messages =
     \<lparr>Model = cfg_Model cfg, Messages = messages, Tools = availableTools, Temperature = 0\<rparr>"

text \<open>
  The loop \<open>for i := 0; i < 10; i++\<close> (lines 943-1002), entered with counter \<open>i\<close>, history
  \<open>h\<close> and the conversation so far. It yields what the function returns, the
  conversation at that point, and the events performed.
\<close>

function rounds ::
  "lib \<Rightarrow> world \<Rightarrow> Client \<Rightarrow> RunnerConfig \<Rightarrow> Tool list \<Rightarrow> (string \<rightharpoonup> string) \<Rightarrow> string \<Rightarrow> nat
     \<Rightarrow> event list \<Rightarrow> ChatCompletionMessage list
     \<Rightarrow> (failure + string) \<times> ChatCompletionMessage list \<times> event list" where
  "rounds L w client cfg availableTools scriptMap skillPath i h messages =
     (if i < 10 then
        (let req = round_request cfg availableTools messages;
             resp = client h req;
             es0 = [ChatCompletion req resp]
         in case resp of
              Inl err \<Rightarrow> (Inl (Err (''ChatCompletion error: '' @ err)), messages, es0)
            | Inr [] \<Rightarrow> (Inl Panic, messages, es0)
            | Inr (msg # _) \<Rightarrow>
                (case ToolCalls msg of
                   None \<Rightarrow> (Inr ([] @ Content msg), messages @ [msg], es0)
                 | Some tcs \<Rightarrow>
                     (case tool_calls_loop L w cfg scriptMap skillPath (h @ es0) tcs (messages @ [msg]) of
                        (messages2, es1) \<Rightarrow>
                          (case rounds L w client cfg availableTools scriptMap skillPath (i + 1)
                                  (h @ es0 @ es1) messages2 of
                             (r, messages3, es2) \<Rightarrow> (r, messages3, es0 @ es1 @ es2)))))
      else (Inl (Err ''exceeded maximum tool call iterations''), messages, []))"
  by pat_completeness auto
termination
  by (relation "measure (\<lambda>(L, w, client, cfg, availableTools, scriptMap, skillPath, i, h, messages). 10 - i)") auto

declare rounds.simps [simp del]

definition initial_messages :: "string \<Rightarrow> SkillPackage \<Rightarrow> ChatCompletionMessage list" where
  "initial_messages userPrompt skill =
     [\<lparr>Role = ChatMessageRoleSystem,
       Content = Body skill @ [CHR 0x0A, CHR 0x0A] @ ''## SKILL CONTEXT'' @ [CHR 0x0A]
                 @ ''Skill Root Path: '' @ Path skill @ [CHR 0x0A],
       ToolCalls = None, ToolCallID = []\<rparr>,
      \<lparr>Role = ChatMessageRoleUser, Content = userPrompt, ToolCalls = None, ToolCallID = []\<rparr>]"

definition executeSkillWithTools ::
  "lib \<Rightarrow> world \<Rightarrow> Client \<Rightarrow> (SkillPackage \<Rightarrow> Tool list \<times> (string \<rightharpoonup> string)) \<Rightarrow> event list
     \<Rightarrow> string \<Rightarrow> SkillPackage \<Rightarrow> RunnerConfig
     \<Rightarrow> (failure + string) \<times> ChatCompletionMessage list \<times> event list" where
  "executeSkillWithTools L w client GenerateToolDefinitions h userPrompt skill cfg =
     (case GenerateToolDefinitions skill of
        (availableTools, scriptMap) \<Rightarrow>
          rounds L w client cfg availableTools scriptMap (Path skill) 0 h
            (initial_messages userPrompt skill))"

subsection \<open>Observations on a run\<close>

fun chat_responses :: "event list \<Rightarrow> (string + ChatCompletionMessage list) list" where
  "chat_responses [] = []"
| "chat_responses (ChatCompletion req r # es) = r # chat_responses es"
| "chat_responses (e # es) = chat_responses es"

fun chat_requests :: "event list \<Rightarrow> ChatCompletionRequest list" where
  "chat_requests [] = []"
| "chat_requests (ChatCompletion req r # es) = req # chat_requests es"
| "chat_requests (e # es) = chat_requests es"

fun ran_cmds :: "event list \<Rightarrow> Cmd list" where
  "ran_cmds [] = []"
| "ran_cmds (RanCmd c r # es) = c # ran_cmds es"
| "ran_cmds (e # es) = ran_cmds es"



definition tool_role_messages :: "ChatCompletionMessage list \<Rightarrow> ChatCompletionMessage list" where
  "tool_role_messages messages = filter (\<lambda>m. Role m = ChatMessageRoleTool) messages"

section \<open>Package agent: tasks, results and the subagents (src/README.md lines 85-782)\<close>

text \<open>
  The listing holds the subagents of package \<open>agent\<close> twice: a first listing (lines
  85-383) and a second one (lines 384-782) with log lines, Chinese texts, a context that
  is a sequence of strings, and HTML rendering. Both are modelled; the functions of the
  first carry the suffix \<open>_v1\<close>, those of the second \<open>_v2\<close>.
\<close>

text \<open>
  Modelled from the spec: the declaration of \<open>TaskType\<close> is not part of the listing.
  The spec gives it as the closed enumeration \<open>SEARCH\<close>, \<open>ANALYZE\<close>, \<open>REPORT\<close>,
  \<open>RENDER\<close>; the constants are named as the listed code names them.
\<close>

datatype TaskType = TaskTypeSearch | TaskTypeAnalyze | TaskTypeReport | TaskTypeRender

text \<open>
  A value of type \<open>interface{}\<close> as the type assertions of the listed code see it: a
  string, a sequence of strings, or a value of another dynamic type.
\<close>

datatype any = String string | StringSlice "string list" | Other

text \<open>
  Modelled from the spec: the declaration of \<open>Task\<close> is not part of the listing. The
  spec gives a task a type, a description and parameters, a mapping from names to typed
  values; these are the fields the listed code reads.
\<close>

record Task =
  Type :: TaskType
  Description :: string
  Parameters :: "string \<rightharpoonup> any"

text \<open>
  Modelled from the spec: the declaration of \<open>Result\<close> is not part of the listing. The
  spec gives it the fields \<open>task_type\<close>, \<open>success\<close>, \<open>output\<close>, \<open>error\<close> (empty on
  success) and \<open>metadata\<close>; the names are those of the composite literals in the listed
  code, and a field a literal leaves out has its zero value.
\<close>

record Result =
  TaskType :: TaskType
  Success :: bool
  Output :: string
  Error :: string
  Metadata :: "string \<rightharpoonup> any"

text \<open>
  \<open>Execute\<close> returns \<open>(Result, error)\<close>: the pair of the result and the error text
  (\<open>None\<close> for nil). It panics where it indexes an empty \<open>resp.Choices\<close>.
\<close>

datatype 'a outcome = Return 'a | IndexPanic

text \<open>
  Modelled from the spec: the interface \<open>InteractionHandler\<close> is declared outside the
  listing. The spec gives it \<open>Log(line)\<close>, \<open>ReviewPlan\<close> and
  \<open>ReviewSearchResults(text)\<close>, the question whether more results are wanted. The listed
  code calls \<open>Log\<close>, recorded as an event, and \<open>ReviewSearchResults\<close>, which returns
  the answer or an error. A nil handler is \<open>None\<close>.
\<close>

record InteractionHandler =
  ReviewSearchResults :: "event list \<Rightarrow> string \<Rightarrow> string + bool"

definition review :: "InteractionHandler \<Rightarrow> event list \<Rightarrow> string \<Rightarrow> (string + bool) \<times> event list" where
  "review ih h results = (let r = ReviewSearchResults ih h results in (r, [Reviewed results r]))"

text \<open>\<open>if s.interactionHandler != nil { s.interactionHandler.Log(line) }\<close>\<close>

definition log_line :: "InteractionHandler option \<Rightarrow> string \<Rightarrow> event list" where
  "log_line interactionHandler line = (case interactionHandler of None \<Rightarrow> [] | Some _ \<Rightarrow> [Logged line])"

text \<open>The type assertions \<open>task.Parameters[k].(string)\<close> and \<open>.([]string)\<close>.\<close>

definition param_string :: "Task \<Rightarrow> string \<Rightarrow> string option" where
  "param_string task k = (case Parameters task k of Some (String s) \<Rightarrow> Some s | _ \<Rightarrow> None)"

definition param_strings :: "Task \<Rightarrow> string \<Rightarrow> string list option" where
  "param_strings task k = (case Parameters task k of Some (StringSlice xs) \<Rightarrow> Some xs | _ \<Rightarrow> None)"

subsection \<open>Strings: the functions of package strings and the formatting verbs used\<close>

text \<open>\<open>%d\<close> of a length: the decimal numeral.\<close>

function Itoa :: "nat \<Rightarrow> string" where
  "Itoa n = (if n < 10 then [''0123456789'' ! n] else Itoa (n div 10) @ [''0123456789'' ! (n mod 10)])"
  by pat_completeness auto
termination
  by (relation "measure id") auto

declare Itoa.simps [simp del]

text \<open>\<open>strings.Join(elems, sep)\<close>\<close>

fun strings_Join :: "string list \<Rightarrow> string \<Rightarrow> string" where
  "strings_Join [] sep = []"
| "strings_Join [x] sep = x"
| "strings_Join (x # y # ys) sep = x @ sep @ strings_Join (y # ys) sep"

definition HasPrefix :: "string \<Rightarrow> string \<Rightarrow> bool" where
  "HasPrefix s prefix = (take (length prefix) s = prefix)"

text \<open>\<open>strings.Index(s, substr)\<close>: the byte index of the first occurrence, or \<open>-1\<close>.\<close>

fun Index :: "string \<Rightarrow> string \<Rightarrow> int" where
  "Index [] substr = (if substr = [] then 0 else - 1)"
| "Index (c # s) substr =
     (if HasPrefix (c # s) substr then 0
      else (let n = Index s substr in if n = - 1 then - 1 else n + 1))"

definition Contains :: "string \<Rightarrow> string \<Rightarrow> bool" where
  "Contains s substr = (Index s substr \<ge> 0)"

text \<open>
  \<open>strings.TrimSpace(s)\<close> removes leading and trailing white space as \<open>unicode.IsSpace\<close>
  defines it. On the bytes of a string these are the UTF-8 encodings of U+0009 to U+000D,
  U+0020, U+0085, U+00A0, U+1680, U+2000 to U+200A, U+2028, U+2029, U+202F, U+205F and
  U+3000. A leading (trailing) rune is white space exactly when the string starts (ends)
  with one of these encodings.
\<close>

definition space_runes :: "string list" where
  "space_runes =
     [[CHR 0x09], [CHR 0x0A], [CHR 0x0B], [CHR 0x0C], [CHR 0x0D], [CHR 0x20],
      [CHR 0xC2, CHR 0x85], [CHR 0xC2, CHR 0xA0], [CHR 0xE1, CHR 0x9A, CHR 0x80],
      [CHR 0xE2, CHR 0x80, CHR 0x80], [CHR 0xE2, CHR 0x80, CHR 0x81], [CHR 0xE2, CHR 0x80, CHR 0x82],
      [CHR 0xE2, CHR 0x80, CHR 0x83], [CHR 0xE2, CHR 0x80, CHR 0x84], [CHR 0xE2, CHR 0x80, CHR 0x85],
      [CHR 0xE2, CHR 0x80, CHR 0x86], [CHR 0xE2, CHR 0x80, CHR 0x87], [CHR 0xE2, CHR 0x80, CHR 0x88],
      [CHR 0xE2, CHR 0x80, CHR 0x89], [CHR 0xE2, CHR 0x80, CHR 0x8A], [CHR 0xE2, CHR 0x80, CHR 0xA8],
      [CHR 0xE2, CHR 0x80, CHR 0xA9], [CHR 0xE2, CHR 0x80, CHR 0xAF], [CHR 0xE2, CHR 0x81, CHR 0x9F],
      [CHR 0xE3, CHR 0x80, CHR 0x80]]"

text \<open>Drop one leading rune of \<open>runes\<close>, if the string starts with one.\<close>

definition drop_rune :: "string list \<Rightarrow> string \<Rightarrow> string" where
  "drop_rune runes s =
     (case List.find (\<lambda>r. HasPrefix s r) runes of Some r \<Rightarrow> drop (length r) s | None \<Rightarrow> s)"

text \<open>
  Dropping leading runes until none is left: every step that changes the string shortens
  it, so \<open>length s\<close> steps reach the end.
\<close>

definition TrimLeft :: "string list \<Rightarrow> string \<Rightarrow> string" where
  "TrimLeft runes s = (drop_rune runes ^^ length s) s"

definition TrimSpace :: "string \<Rightarrow> string" where
  "TrimSpace s = rev (TrimLeft (map rev space_runes) (rev (TrimLeft space_runes s)))"

definition newline :: string where
  "newline = [CHR 0x0A]"

subsection \<open>Search subagent\<close>

text \<open>\<open>query, ok := task.Parameters["query"].(string); if !ok { query = task.Description }\<close>\<close>

definition search_query :: "Task \<Rightarrow> string" where
  "search_query task = (case param_string task ''query'' of Some query \<Rightarrow> query | None \<Rightarrow> Description task)"

text \<open>
  Lines 136-168 and 443-482, which differ in the limit of the second search (100 in the
  first listing, 50 in the second) and in what is printed: the web search with its
  fall-back and the review. \<open>Inl\<close> is the error with which \<open>Execute\<close> returns at once.
\<close>

definition web_search ::
  "world \<Rightarrow> InteractionHandler option \<Rightarrow> nat \<Rightarrow> event list \<Rightarrow> string \<Rightarrow> (string + string) \<times> event list" where
  "web_search w interactionHandler limit h query =
     (case call_tool w h (TavilySearch query) of
        (Inl err, es1) \<Rightarrow>
          (case call_tool w (h @ es1) (DuckDuckGoSearch query) of
             (r, es2) \<Rightarrow> (r, es1 @ es2))
      | (Inr searchResult, es1) \<Rightarrow>
          (case interactionHandler of
             None \<Rightarrow> (Inr searchResult, es1)
           | Some ih \<Rightarrow>
               (case review ih (h @ es1) searchResult of
                  (Inr True, es2) \<Rightarrow>
                    (case call_tool w (h @ es1 @ es2) (TavilySearchWithLimit query limit) of
                       (Inr moreResults, es3) \<Rightarrow> (Inr moreResults, es1 @ es2 @ es3)
                     | (Inl _, es3) \<Rightarrow> (Inr searchResult, es1 @ es2 @ es3))
                | (_, es2) \<Rightarrow> (Inr searchResult, es1 @ es2))))"

text \<open>
  Lines 172-174 and 486-488: the text kept after the Wikipedia search, with the two
  headings of the listing.
\<close>

definition combined_text :: "string \<Rightarrow> string \<Rightarrow> string + string \<Rightarrow> string \<Rightarrow> string" where
  "combined_text web_heading wiki_heading wiki searchResult =
     (case wiki of
        Inr wikiResult \<Rightarrow>
          (if wikiResult \<noteq> []
           then web_heading @ newline @ searchResult @ newline @ newline
                @ wiki_heading @ newline @ wikiResult
           else searchResult)
      | Inl wikiErr \<Rightarrow> searchResult)"

text \<open>Lines 170-174 and 484-488: the Wikipedia search and the text kept.\<close>

definition with_wikipedia ::
  "world \<Rightarrow> string \<Rightarrow> string \<Rightarrow> event list \<Rightarrow> string \<Rightarrow> string \<Rightarrow> string \<times> event list" where
  "with_wikipedia w web_heading wiki_heading h query searchResult =
     (case call_tool w h (WikipediaSearch query) of
        (wiki, es) \<Rightarrow> (combined_text web_heading wiki_heading wiki searchResult, es))"

definition search_failed :: "string \<Rightarrow> Result" where
  "search_failed err =
     \<lparr>TaskType = TaskTypeSearch, Success = False, Output = [], Error = err, Metadata = Map.empty\<rparr>"

definition search_succeeded :: "string \<Rightarrow> string \<Rightarrow> Result" where
  "search_succeeded query searchResult =
     \<lparr>TaskType = TaskTypeSearch, Success = True, Output = searchResult, Error = [],
      Metadata = [''query'' \<mapsto> String query]\<rparr>"

text \<open>First listing, lines 120-188.\<close>

definition SearchSubagent_Execute_v1 ::
  "world \<Rightarrow> InteractionHandler option \<Rightarrow> event list \<Rightarrow> Task \<Rightarrow> (Result \<times> string option) \<times> event list" where
  "SearchSubagent_Execute_v1 w interactionHandler h task =
     (let query = search_query task in
      case web_search w interactionHandler 100 h query of
        (Inl err, es1) \<Rightarrow> ((search_failed err, Some err), es1)
      | (Inr searchResult, es1) \<Rightarrow>
          (case with_wikipedia w ''Web Search Results:'' ''Wikipedia Results:'' (h @ es1) query searchResult of
             (searchResult', es2) \<Rightarrow> ((search_succeeded query searchResult', None), es1 @ es2)))"

text \<open>Line 429: the log line's text before the description (\<open>> \<close>, U+7F51 U+7EDC U+641C U+7D22 U+5B50, \<open>Agent: \<close>), in UTF-8.\<close>

definition zh_search_started :: string where
  "zh_search_started =
     ''> '' @ [CHR 0xE7, CHR 0xBD, CHR 0x91, CHR 0xE7, CHR 0xBB, CHR 0x9C, CHR 0xE6, CHR 0x90,
     CHR 0x9C, CHR 0xE7, CHR 0xB4, CHR 0xA2, CHR 0xE5, CHR 0xAD, CHR 0x90] @ ''Agent: ''"

text \<open>Line 487: the heading of the web results (U+7F51 U+7EDC U+641C U+7D22 U+7ED3 U+679C and a colon).\<close>

definition zh_web_results :: string where
  "zh_web_results =
     [CHR 0xE7, CHR 0xBD, CHR 0x91, CHR 0xE7, CHR 0xBB, CHR 0x9C, CHR 0xE6, CHR 0x90, CHR 0x9C,
     CHR 0xE7, CHR 0xB4, CHR 0xA2, CHR 0xE7, CHR 0xBB, CHR 0x93, CHR 0xE6, CHR 0x9E,
     CHR 0x9C] @ '':''"

text \<open>Line 487: the heading of the Wikipedia results (U+7EF4 U+57FA U+767E U+79D1 U+7ED3 U+679C and a colon).\<close>

definition zh_wiki_results :: string where
  "zh_wiki_results =
     [CHR 0xE7, CHR 0xBB, CHR 0xB4, CHR 0xE5, CHR 0x9F, CHR 0xBA, CHR 0xE7, CHR 0x99, CHR 0xBE,
     CHR 0xE7, CHR 0xA7, CHR 0x91, CHR 0xE7, CHR 0xBB, CHR 0x93, CHR 0xE6, CHR 0x9E,
     CHR 0x9C] @ '':''"

text \<open>Line 494: the text before the byte count (U+2713, a space, U+5DF2 U+68C0 U+7D22 U+4FE1 U+606F, a space and an opening parenthesis).\<close>

definition zh_retrieved :: string where
  "zh_retrieved =
     [CHR 0xE2, CHR 0x9C, CHR 0x93] @ '' '' @ [CHR 0xE5, CHR 0xB7, CHR 0xB2, CHR 0xE6, CHR 0xA3,
     CHR 0x80, CHR 0xE7, CHR 0xB4, CHR 0xA2, CHR 0xE4, CHR 0xBF, CHR 0xA1, CHR 0xE6, CHR 0x81,
     CHR 0xAF] @ '' (''"

text \<open>Lines 494 and 588: the text after the byte count (a space, U+5B57 U+8282 and a closing parenthesis).\<close>

definition zh_bytes :: string where
  "zh_bytes =
     '' '' @ [CHR 0xE5, CHR 0xAD, CHR 0x97, CHR 0xE8, CHR 0x8A, CHR 0x82] @ '')''"


text \<open>Second listing, lines 424-505.\<close>

definition SearchSubagent_Execute_v2 ::
  "world \<Rightarrow> InteractionHandler option \<Rightarrow> event list \<Rightarrow> Task \<Rightarrow> (Result \<times> string option) \<times> event list" where
  "SearchSubagent_Execute_v2 w interactionHandler h task =
     (let es0 = log_line interactionHandler (zh_search_started @ Description task);
          query = search_query task in
      case web_search w interactionHandler 50 (h @ es0) query of
        (Inl err, es1) \<Rightarrow> ((search_failed err, Some err), es0 @ es1)
      | (Inr searchResult, es1) \<Rightarrow>
          (case with_wikipedia w zh_web_results zh_wiki_results (h @ es0 @ es1) query searchResult of
             (searchResult', es2) \<Rightarrow>
               ((search_succeeded query searchResult', None),
                es0 @ es1 @ es2
                @ log_line interactionHandler (zh_retrieved @ Itoa (length searchResult') @ zh_bytes))))"

subsection \<open>Analysis subagent\<close>

definition analysis_failed :: "string \<Rightarrow> Result" where
  "analysis_failed err =
     \<lparr>TaskType = TaskTypeAnalyze, Success = False, Output = [], Error = err, Metadata = Map.empty\<rparr>"

definition analysis_succeeded :: "string \<Rightarrow> Result" where
  "analysis_succeeded analysis =
     \<lparr>TaskType = TaskTypeAnalyze, Success = True, Output = analysis, Error = [], Metadata = Map.empty\<rparr>"

definition user_message :: "string \<Rightarrow> ChatCompletionMessage" where
  "user_message prompt = \<lparr>Role = ChatMessageRoleUser, Content = prompt, ToolCalls = None, ToolCallID = []\<rparr>"

definition system_message :: "string \<Rightarrow> ChatCompletionMessage" where
  "system_message prompt = \<lparr>Role = ChatMessageRoleSystem, Content = prompt, ToolCalls = None, ToolCallID = []\<rparr>"

text \<open>First listing, lines 217-225: the context is read as one string.\<close>

definition analysis_prompt_v1 :: "Task \<Rightarrow> string" where
  "analysis_prompt_v1 task =
     (case param_string task ''context'' of
        Some context_data \<Rightarrow>
          ''Analyze the following information and '' @ Description task @ '':'' @ newline @ newline
          @ context_data
      | None \<Rightarrow> Description task)"

text \<open>First listing, lines 227-242.\<close>

definition analysis_request_v1 :: "string \<Rightarrow> Task \<Rightarrow> ChatCompletionRequest" where
  "analysis_request_v1 model task =
     \<lparr>Model = model,
      Messages =
        [system_message (''You are an analytical assistant that synthesizes and analyzes information. ''
                         @ ''Provide clear, structured analysis.''),
         user_message (analysis_prompt_v1 task)],
      Tools = [], Temperature = 3 / 10\<rparr>"

text \<open>First listing, lines 212-264.\<close>

definition AnalysisSubagent_Execute_v1 ::
  "Client \<Rightarrow> string \<Rightarrow> event list \<Rightarrow> Task \<Rightarrow> (Result \<times> string option) outcome \<times> event list" where
  "AnalysisSubagent_Execute_v1 client model h task =
     (let req = analysis_request_v1 model task;
          resp = client h req;
          es = [ChatCompletion req resp]
      in case resp of
           Inl err \<Rightarrow> (Return (analysis_failed err, Some err), es)
         | Inr [] \<Rightarrow> (IndexPanic, es)
         | Inr (msg # _) \<Rightarrow> (Return (analysis_succeeded (Content msg), None), es))"

text \<open>Line 536: the log line's text before the description (\<open>> \<close>, U+5206 U+6790 U+5B50, \<open>Agent: \<close>).\<close>

definition zh_analysis_started :: string where
  "zh_analysis_started =
     ''> '' @ [CHR 0xE5, CHR 0x88, CHR 0x86, CHR 0xE6, CHR 0x9E, CHR 0x90, CHR 0xE5, CHR 0xAD,
     CHR 0x90] @ ''Agent: ''"

text \<open>Line 544: the start of the user prompt (U+5206 U+6790 U+4EE5 U+4E0B U+4FE1 U+606F U+5E76 and a space).\<close>

definition zh_analyze_prefix :: string where
  "zh_analyze_prefix =
     [CHR 0xE5, CHR 0x88, CHR 0x86, CHR 0xE6, CHR 0x9E, CHR 0x90, CHR 0xE4, CHR 0xBB, CHR 0xA5,
     CHR 0xE4, CHR 0xB8, CHR 0x8B, CHR 0xE4, CHR 0xBF, CHR 0xA1, CHR 0xE6, CHR 0x81, CHR 0xAF,
     CHR 0xE5, CHR 0xB9, CHR 0xB6] @ '' ''"

text \<open>Line 551: the system prompt of the analyst, in UTF-8.\<close>

definition zh_analysis_system :: string where
  "zh_analysis_system =
     [CHR 0xE4, CHR 0xBD, CHR 0xA0, CHR 0xE6, CHR 0x98, CHR 0xAF, CHR 0xE4, CHR 0xB8, CHR 0x80,
     CHR 0xE4, CHR 0xB8, CHR 0xAA, CHR 0xE5, CHR 0x88, CHR 0x86, CHR 0xE6, CHR 0x9E, CHR 0x90,
     CHR 0xE5, CHR 0x8A, CHR 0xA9, CHR 0xE6, CHR 0x89, CHR 0x8B, CHR 0xEF, CHR 0xBC, CHR 0x8C,
     CHR 0xE8, CHR 0xB4, CHR 0x9F, CHR 0xE8, CHR 0xB4, CHR 0xA3, CHR 0xE7, CHR 0xBB, CHR 0xBC,
     CHR 0xE5, CHR 0x90, CHR 0x88, CHR 0xE5, CHR 0x92, CHR 0x8C, CHR 0xE5, CHR 0x88, CHR 0x86,
     CHR 0xE6, CHR 0x9E, CHR 0x90, CHR 0xE4, CHR 0xBF, CHR 0xA1, CHR 0xE6, CHR 0x81, CHR 0xAF,
     CHR 0xE3, CHR 0x80, CHR 0x82, CHR 0xE8, CHR 0xAF, CHR 0xB7, CHR 0xE6, CHR 0x8F, CHR 0x90,
     CHR 0xE4, CHR 0xBE, CHR 0x9B, CHR 0xE6, CHR 0xB8, CHR 0x85, CHR 0xE6, CHR 0x99, CHR 0xB0,
     CHR 0xE3, CHR 0x80, CHR 0x81, CHR 0xE7, CHR 0xBB, CHR 0x93, CHR 0xE6, CHR 0x9E, CHR 0x84,
     CHR 0xE5, CHR 0x8C, CHR 0x96, CHR 0xE7, CHR 0x9A, CHR 0x84, CHR 0xE5, CHR 0x88, CHR 0x86,
     CHR 0xE6, CHR 0x9E, CHR 0x90, CHR 0xE3, CHR 0x80, CHR 0x82]"

text \<open>Lines 553: two newlines, the heading of the user's context (U+6765 U+81EA U+7528 U+6237 U+7684 U+91CD U+8981 U+4E0A U+4E0B U+6587, a slash, U+6307 U+4EE4, U+FF1A) and a newline.\<close>

definition zh_global_context :: string where
  "zh_global_context =
     [CHR 0x0A, CHR 0x0A, CHR 0xE6, CHR 0x9D, CHR 0xA5, CHR 0xE8, CHR 0x87, CHR 0xAA, CHR 0xE7,
     CHR 0x94, CHR 0xA8, CHR 0xE6, CHR 0x88, CHR 0xB7, CHR 0xE7, CHR 0x9A, CHR 0x84, CHR 0xE9,
     CHR 0x87, CHR 0x8D, CHR 0xE8, CHR 0xA6, CHR 0x81, CHR 0xE4, CHR 0xB8, CHR 0x8A, CHR 0xE4,
     CHR 0xB8, CHR 0x8B, CHR 0xE6, CHR 0x96, CHR 0x87] @ ''/'' @ [CHR 0xE6, CHR 0x8C, CHR 0x87,
     CHR 0xE4, CHR 0xBB, CHR 0xA4, CHR 0xEF, CHR 0xBC, CHR 0x9A, CHR 0x0A]"

text \<open>Line 588: the text before the byte count (U+2713, a space, U+5206 U+6790 U+5B8C U+6210, a space and an opening parenthesis).\<close>

definition zh_analysis_done :: string where
  "zh_analysis_done =
     [CHR 0xE2, CHR 0x9C, CHR 0x93] @ '' '' @ [CHR 0xE5, CHR 0x88, CHR 0x86, CHR 0xE6, CHR 0x9E,
     CHR 0x90, CHR 0xE5, CHR 0xAE, CHR 0x8C, CHR 0xE6, CHR 0x88, CHR 0x90] @ '' (''"


text \<open>Second listing, lines 539-547: the context is read as a sequence of strings.\<close>

definition analysis_prompt_v2 :: "Task \<Rightarrow> string" where
  "analysis_prompt_v2 task =
     (case param_strings task ''context'' of
        Some contextData \<Rightarrow>
          (if length contextData > 0
           then zh_analyze_prefix @ Description task @ '':'' @ newline @ newline
                @ strings_Join contextData (newline @ newline)
           else Description task)
      | None \<Rightarrow> Description task)"

text \<open>Second listing, lines 549-571.\<close>

definition analysis_request_v2 :: "string \<Rightarrow> Task \<Rightarrow> ChatCompletionRequest" where
  "analysis_request_v2 model task =
     (let globalContext = (case param_string task ''global_context'' of Some g \<Rightarrow> g | None \<Rightarrow> []);
          systemPrompt = zh_analysis_system
            @ (if globalContext \<noteq> [] then zh_global_context @ globalContext else [])
      in \<lparr>Model = model,
          Messages = [system_message systemPrompt, user_message (analysis_prompt_v2 task)],
          Tools = [], Temperature = 3 / 10\<rparr>)"

text \<open>Second listing, lines 531-596.\<close>

definition AnalysisSubagent_Execute_v2 ::
  "Client \<Rightarrow> string \<Rightarrow> InteractionHandler option \<Rightarrow> event list \<Rightarrow> Task
     \<Rightarrow> (Result \<times> string option) outcome \<times> event list" where
  "AnalysisSubagent_Execute_v2 client model interactionHandler h task =
     (let es0 = log_line interactionHandler (zh_analysis_started @ Description task);
          req = analysis_request_v2 model task;
          resp = client (h @ es0) req;
          es = es0 @ [ChatCompletion req resp]
      in case resp of
           Inl err \<Rightarrow> (Return (analysis_failed err, Some err), es)
         | Inr [] \<Rightarrow> (IndexPanic, es)
         | Inr (msg # _) \<Rightarrow>
             (Return (analysis_succeeded (Content msg), None),
              es @ log_line interactionHandler (zh_analysis_done @ Itoa (length (Content msg)) @ zh_bytes)))"

subsection \<open>Render subagent\<close>

text \<open>
  The renderers are library functions: \<open>markdown.Render(content, 80, 6)\<close> of
  go-term-markdown and the gomarkdown pipeline of lines 764-772. They are parameters.
\<close>

definition render_succeeded :: "string \<Rightarrow> Result" where
  "render_succeeded output =
     \<lparr>TaskType = TaskTypeRender, Success = True, Output = output, Error = [], Metadata = Map.empty\<rparr>"

text \<open>First listing, lines 365-369.\<close>

definition render_content_v1 :: "Task \<Rightarrow> string" where
  "render_content_v1 task =
     (case param_string task ''content'' of Some content \<Rightarrow> content | None \<Rightarrow> Description task)"

text \<open>First listing, lines 360-383.\<close>

definition RenderSubagent_Execute_v1 ::
  "(string \<Rightarrow> nat \<Rightarrow> nat \<Rightarrow> string) \<Rightarrow> Task \<Rightarrow> (Result \<times> string option) \<times> event list" where
  "RenderSubagent_Execute_v1 markdown_Render task =
     ((render_succeeded (markdown_Render (render_content_v1 task) 80 6), None), [])"

text \<open>Second listing, lines 729-732: the text after the first newline, if there is one.\<close>

definition after_header :: "string \<Rightarrow> string" where
  "after_header content =
     (let idx = Index content newline in
      if idx \<noteq> - 1 then drop (nat (idx + 1)) content else content)"

text \<open>
  Second listing, lines 741-746: the text after the first newline that follows the first
  \<open>Output from \<close>, if there are both.
\<close>

definition after_output_from :: "string \<Rightarrow> string" where
  "after_output_from content =
     (let idx = Index content ''Output from '' in
      if idx \<noteq> - 1 then
        (let newlineIdx = Index (drop (nat idx) content) newline in
         if newlineIdx \<noteq> - 1 then drop (nat (idx + newlineIdx + 1)) content else content)
      else content)"

text \<open>
  Second listing, lines 719-752. The loop of lines 726-736 runs from the last entry to
  the first and stops at the first entry that contains the header of a report.
\<close>

definition render_content_v2 :: "Task \<Rightarrow> string" where
  "render_content_v2 task =
     (case param_string task ''content'' of
        Some content \<Rightarrow> content
      | None \<Rightarrow>
          (case param_strings task ''context'' of
             Some ctxContent \<Rightarrow>
               (if length ctxContent > 0 then
                  TrimSpace
                    (case List.find (\<lambda>entry. Contains entry ''Output from REPORT task:'') (rev ctxContent) of
                       Some entry \<Rightarrow> after_header entry
                     | None \<Rightarrow> after_output_from (last ctxContent))
                else Description task)
           | None \<Rightarrow> Description task))"

text \<open>Line 716: the log line's text before the description (\<open>> \<close>, U+6E32 U+67D3 U+5B50, \<open>Agent: \<close>).\<close>

definition zh_render_started :: string where
  "zh_render_started =
     ''> '' @ [CHR 0xE6, CHR 0xB8, CHR 0xB2, CHR 0xE6, CHR 0x9F, CHR 0x93, CHR 0xE5, CHR 0xAD,
     CHR 0x90] @ ''Agent: ''"

text \<open>Line 758: the text before the byte count (U+6B63 U+5728 U+6E32 U+67D3 and a space).\<close>

definition zh_rendering :: string where
  "zh_rendering =
     [CHR 0xE6, CHR 0xAD, CHR 0xA3, CHR 0xE5, CHR 0x9C, CHR 0xA8, CHR 0xE6, CHR 0xB8, CHR 0xB2,
     CHR 0xE6, CHR 0x9F, CHR 0x93] @ '' ''"

text \<open>Line 758: the text after the byte count (a space and U+5B57 U+8282 U+7684 U+5185 U+5BB9).\<close>

definition zh_bytes_of_content :: string where
  "zh_bytes_of_content =
     '' '' @ [CHR 0xE5, CHR 0xAD, CHR 0x97, CHR 0xE8, CHR 0x8A, CHR 0x82, CHR 0xE7, CHR 0x9A,
     CHR 0x84, CHR 0xE5, CHR 0x86, CHR 0x85, CHR 0xE5, CHR 0xAE, CHR 0xB9]"


text \<open>Second listing, lines 711-782.\<close>

definition RenderSubagent_Execute_v2 ::
  "(string \<Rightarrow> nat \<Rightarrow> nat \<Rightarrow> string) \<Rightarrow> (string \<Rightarrow> string) \<Rightarrow> bool \<Rightarrow> InteractionHandler option \<Rightarrow> Task
     \<Rightarrow> (Result \<times> string option) \<times> event list" where
  "RenderSubagent_Execute_v2 markdown_Render gomarkdown_Render renderHTML interactionHandler task =
     (let es0 = log_line interactionHandler (zh_render_started @ Description task);
          content = render_content_v2 task;
          es1 = log_line interactionHandler (zh_rendering @ Itoa (length content) @ zh_bytes_of_content);
          output = (if renderHTML then gomarkdown_Render content else markdown_Render content 80 6)
      in ((render_succeeded output, None), es0 @ es1))"

section \<open>Properties stated of a run\<close>


section \<open>Sample inputs\<close>

text \<open>Concrete libraries, worlds, clients and tasks on which the theorems are exercised.\<close>

definition sample_lib :: lib where
  "sample_lib =
     \<lparr>unmarshal_code = (\<lambda>s. Inl ''invalid character''),
      unmarshal_script = (\<lambda>s. Inl ''invalid character''),
      unmarshal_filePath = (\<lambda>s. Inr s),
      unmarshal_write = (\<lambda>s. Inl ''invalid character''),
      unmarshal_query = (\<lambda>s. Inr s),
      unmarshal_url = (\<lambda>s. Inr s),
      unmarshal_args = (\<lambda>s. Inr [s]),
      IsAbs = (\<lambda>p. HasPrefix p ''/''),
      Join = (\<lambda>a b. a @ ''/'' @ b)\<rparr>"

text \<open>
  A world where only \<open>python\<close> is on the path, no file exists, every back-end but Tavily
  answers, and the user answers \<open>n\<close> to every prompt.
\<close>

definition sample_world :: world where
  "sample_world =
     \<lparr>tool_pkg = (\<lambda>h op. case op of
                     TavilySearch q \<Rightarrow> Inl ''missing TAVILY_API_KEY''
                   | DuckDuckGoSearch q \<Rightarrow> Inr ''DDG-OK''
                   | WikipediaSearch q \<Rightarrow> Inr ''WIKI-OK''
                   | _ \<Rightarrow> Inr ''data''),
      LookPath = (\<lambda>h name. if name = ''python'' then Inr ''/usr/bin/python'' else Inl ''not found''),
      Environ = (\<lambda>h. []),
      cmd_Run = (\<lambda>h cmd. (None, ''out'', ''err'')),
      Stat = (\<lambda>h p. Some ''no such file or directory''),
      Scanln = (\<lambda>h. ''n'')\<rparr>"

text \<open>A world where Tavily answers and no other search does.\<close>

definition tavily_world :: world where
  "tavily_world =
     \<lparr>tool_pkg = (\<lambda>h op. case op of
                     TavilySearch q \<Rightarrow> Inr ''TAVILY-OK''
                   | TavilySearchWithLimit q n \<Rightarrow> Inr ''TAVILY-MORE''
                   | _ \<Rightarrow> Inl ''unreachable''),
      LookPath = (\<lambda>h name. Inl ''not found''),
      Environ = (\<lambda>h. []),
      cmd_Run = (\<lambda>h cmd. (Some ''exit status 1'', [], [])),
      Stat = (\<lambda>h p. None),
      Scanln = (\<lambda>h. ''y'')\<rparr>"

text \<open>
  A world where Tavily answers once: the search with a limit fails, and Wikipedia finds
  nothing.
\<close>

definition tavily_once_world :: world where
  "tavily_once_world =
     \<lparr>tool_pkg = (\<lambda>h op. case op of
                     TavilySearch q \<Rightarrow> Inr ''TAVILY-OK''
                   | TavilySearchWithLimit q n \<Rightarrow> Inl ''rate limited''
                   | WikipediaSearch q \<Rightarrow> Inr []
                   | _ \<Rightarrow> Inl ''unreachable''),
      LookPath = (\<lambda>h name. Inl ''not found''),
      Environ = (\<lambda>h. []),
      cmd_Run = (\<lambda>h cmd. (Some ''exit status 1'', [], [])),
      Stat = (\<lambda>h p. None),
      Scanln = (\<lambda>h. ''y'')\<rparr>"

text \<open>
  A world where \<open>python3\<close> is on the path and \<open>python\<close> is not; the script \<open>bad.py\<close>
  exits with status 1, every other script succeeds.
\<close>

definition python3_world :: world where
  "python3_world =
     \<lparr>tool_pkg = (\<lambda>h op. Inl ''unreachable''),
      LookPath = (\<lambda>h name. if name = ''python3'' then Inr ''/usr/bin/python3'' else Inl ''not found''),
      Environ = (\<lambda>h. [''HOME=/root'']),
      cmd_Run = (\<lambda>h cmd. if cmd_Args cmd = [cmd_Path cmd, ''bad.py'']
                           then (Some ''exit status 1'', [], ''boom'')
                           else (None, ''out'', ''err'')),
      Stat = (\<lambda>h p. None),
      Scanln = (\<lambda>h. [])\<rparr>"

text \<open>A world where no search back-end answers.\<close>

definition offline_world :: world where
  "offline_world =
     \<lparr>tool_pkg = (\<lambda>h op. case op of
                     TavilySearch q \<Rightarrow> Inl ''tavily down''
                   | DuckDuckGoSearch q \<Rightarrow> Inl ''ddg down''
                   | _ \<Rightarrow> Inl ''unreachable''),
      LookPath = (\<lambda>h name. Inl ''not found''),
      Environ = (\<lambda>h. []),
      cmd_Run = (\<lambda>h cmd. (Some ''exit status 1'', [], [])),
      Stat = (\<lambda>h p. None),
      Scanln = (\<lambda>h. [])\<rparr>"

definition wants_more :: InteractionHandler where
  "wants_more = \<lparr>ReviewSearchResults = (\<lambda>h results. Inr True)\<rparr>"

definition sample_skill :: SkillPackage where
  "sample_skill = \<lparr>Body = ''Summarise the notes.'', Path = ''/skills/notes''\<rparr>"

definition sample_cfg :: RunnerConfig where
  "sample_cfg =
     \<lparr>APIKey = ''key'', APIBase = [], cfg_Model = ''gpt-4o'', SkillsDir = ''/skills'',
      Verbose = False, AutoApproveTools = False, AllowedScripts = []\<rparr>"

definition no_scripts :: "SkillPackage \<Rightarrow> Tool list \<times> (string \<rightharpoonup> string)" where
  "no_scripts skill = ([], Map.empty)"

definition sample_call :: ToolCall where
  "sample_call = \<lparr>ID = ''call_1'', Function = \<lparr>Name = ''read_file'', Arguments = ''notes.txt''\<rparr>\<rparr>"


definition final_message :: ChatCompletionMessage where
  "final_message =
     \<lparr>Role = ChatMessageRoleAssistant, Content = ''All done.'', ToolCalls = None, ToolCallID = []\<rparr>"



text \<open>An LLM that answers at once.\<close>

definition answering :: Client where
  "answering h req = Inr [final_message]"

text \<open>An endpoint that is down.\<close>

definition failing_client :: Client where
  "failing_client h req = Inl ''status code: 500''"


definition sample_task :: "TaskType \<Rightarrow> (string \<rightharpoonup> any) \<Rightarrow> Task" where
  "sample_task type parameters = \<lparr>Type = type, Description = ''describe'', Parameters = parameters\<rparr>"

text \<open>A context as the orchestrator builds it: one entry per earlier task, each under its header.\<close>

definition report_entry :: string where
  "report_entry = ''Output from REPORT task:'' @ newline @ ''Hello'' @ newline"

definition sample_context :: "string list" where
  "sample_context =
     [''Output from SEARCH task:'' @ newline @ ''found'', report_entry,
      ''Output from ANALYZE task:'' @ newline @ ''seen'']"

definition sample_markdown_Render :: "string \<Rightarrow> nat \<Rightarrow> nat \<Rightarrow> string" where
  "sample_markdown_Render content width indent = ''[md] '' @ content"

section \<open>The tool loop of the runner: bound, output and denial\<close>

lemma chat_responses_append [simp]:
  "chat_responses (xs @ ys) = chat_responses xs @ chat_responses ys"
  by (induction xs rule: chat_responses.induct) simp_all

lemma ran_cmds_append [simp]: "ran_cmds (xs @ ys) = ran_cmds xs @ ran_cmds ys"
  by (induction xs rule: ran_cmds.induct) simp_all

lemma tool_failed_snd [simp]: "snd (tool_failed name r) = snd r"
  by (simp add: tool_failed_def split: prod.splits sum.splits)

lemma RunPythonScript_no_chat: "chat_responses (snd (RunPythonScript w h scriptPath args)) = []"
  by (simp add: RunPythonScript_def run_python_def Let_def split: sum.splits prod.splits option.splits)

lemma call_tool_snd [simp]: "snd (call_tool w h op) = [ToolOp op (tool_pkg w h op)]"
  by (simp add: call_tool_def Let_def)

lemma read_file_path_no_chat:
  "read_file_path L w h skillPath filePath = (path, es) \<Longrightarrow> chat_responses es = []"
  by (auto simp: read_file_path_def Let_def split: if_splits)

lemma executeToolCall_no_chat:
  "chat_responses (snd (executeToolCall L w h tc scriptMap skillPath)) = []"
  unfolding executeToolCall_def Let_def
  apply (simp only: split: if_split)
  apply (intro conjI impI)
  apply (auto simp: RunPythonScript_no_chat call_tool_def Let_def dest: read_file_path_no_chat
      split: sum.split prod.split option.split)
  done


lemma tool_call_step_no_chat:
  "chat_responses (snd (tool_call_step L w cfg scriptMap skillPath h tc messages)) = []"
proof -
  have "chat_responses es = []"
    if "executeToolCall L w h' tc scriptMap skillPath = (r, es)" for h' r es
    using executeToolCall_no_chat [of L w h' tc scriptMap skillPath] that by simp
  then show ?thesis
    by (auto simp: tool_call_step_def Let_def split: sum.splits prod.splits)
qed

lemma tool_role_messages_append [simp]:
  "tool_role_messages (xs @ ys) = tool_role_messages xs @ tool_role_messages ys"
  by (simp add: tool_role_messages_def)

lemma tool_role_messages_tool_message [simp]:
  "tool_role_messages [tool_message tcID content] = [tool_message tcID content]"
  by (simp add: tool_role_messages_def tool_message_def)

lemma tool_calls_loop_no_chat:
  "chat_responses (snd (tool_calls_loop L w cfg scriptMap skillPath h tcs messages)) = []"
proof (induction tcs arbitrary: h messages)
  case Nil
  show ?case by simp
next
  case (Cons tc tcs)
  obtain m1 es1 where s: "tool_call_step L w cfg scriptMap skillPath h tc messages = (m1, es1)"
    by (cases "tool_call_step L w cfg scriptMap skillPath h tc messages")
  obtain m2 es2 where l: "tool_calls_loop L w cfg scriptMap skillPath (h @ es1) tcs m1 = (m2, es2)"
    by (cases "tool_calls_loop L w cfg scriptMap skillPath (h @ es1) tcs m1")
  have "chat_responses es1 = []"
    using tool_call_step_no_chat [of L w cfg scriptMap skillPath h tc messages] s by simp
  moreover have "chat_responses es2 = []"
    using Cons.IH [of "h @ es1" m1] l by simp
  ultimately show ?case using s l by simp
qed


text \<open>An induction rule that follows the ways one round of the loop can go.\<close>

lemma rounds_induct_rule [case_names exceeded chat_error no_choice final tools]:
  assumes exceeded: "\<And>i h messages. \<not> i < 10 \<Longrightarrow>
      P i h messages (Inl (Err ''exceeded maximum tool call iterations''), messages, [])"
    and chat_error: "\<And>i h messages err. i < 10 \<Longrightarrow>
      client h (round_request cfg availableTools messages) = Inl err \<Longrightarrow>
      P i h messages (Inl (Err (''ChatCompletion error: '' @ err)), messages,
        [ChatCompletion (round_request cfg availableTools messages) (Inl err)])"
    and no_choice: "\<And>i h messages. i < 10 \<Longrightarrow>
      client h (round_request cfg availableTools messages) = Inr [] \<Longrightarrow>
      P i h messages (Inl Panic, messages,
        [ChatCompletion (round_request cfg availableTools messages) (Inr [])])"
    and final: "\<And>i h messages msg rest. i < 10 \<Longrightarrow>
      client h (round_request cfg availableTools messages) = Inr (msg # rest) \<Longrightarrow>
      ToolCalls msg = None \<Longrightarrow>
      P i h messages (Inr (Content msg), messages @ [msg],
        [ChatCompletion (round_request cfg availableTools messages) (Inr (msg # rest))])"
    and tools: "\<And>i h messages msg rest tcs messages2 es1 r messages3 es2. i < 10 \<Longrightarrow>
      client h (round_request cfg availableTools messages) = Inr (msg # rest) \<Longrightarrow>
      ToolCalls msg = Some tcs \<Longrightarrow>
      tool_calls_loop L w cfg scriptMap skillPath
        (h @ [ChatCompletion (round_request cfg availableTools messages) (Inr (msg # rest))])
        tcs (messages @ [msg]) = (messages2, es1) \<Longrightarrow>
      rounds L w client cfg availableTools scriptMap skillPath (i + 1)
        (h @ [ChatCompletion (round_request cfg availableTools messages) (Inr (msg # rest))] @ es1)
        messages2 = (r, messages3, es2) \<Longrightarrow>
      P (i + 1)
        (h @ [ChatCompletion (round_request cfg availableTools messages) (Inr (msg # rest))] @ es1)
        messages2 (r, messages3, es2) \<Longrightarrow>
      P i h messages (r, messages3,
        [ChatCompletion (round_request cfg availableTools messages) (Inr (msg # rest))] @ es1 @ es2)"
  shows "P i h messages (rounds L w client cfg availableTools scriptMap skillPath i h messages)"
proof (induction "10 - i" arbitrary: i h messages)
  case 0
  then have "\<not> i < 10" by simp
  then show ?case using exceeded [of i h messages] by (simp add: rounds.simps)
next
  case (Suc n)
  then have lt: "i < 10" by simp
  let ?req = "round_request cfg availableTools messages"
  show ?case
  proof (cases "client h ?req")
    case (Inl err)
    then show ?thesis
      using chat_error [OF lt Inl] lt
      by (simp add: rounds.simps [of _ _ _ _ _ _ _ i] Let_def)
  next
    case (Inr choices)
    show ?thesis
    proof (cases choices)
      case Nil
      then show ?thesis
        using no_choice [OF lt] Inr lt
        by (simp add: rounds.simps [of _ _ _ _ _ _ _ i] Let_def)
    next
      case (Cons msg rest)
      have resp: "client h ?req = Inr (msg # rest)" using Inr Cons by simp
      show ?thesis
      proof (cases "ToolCalls msg")
        case None
        then show ?thesis
          using final [OF lt resp None] resp lt
          by (simp add: rounds.simps [of _ _ _ _ _ _ _ i] Let_def)
      next
        case (Some tcs)
        let ?h1 = "h @ [ChatCompletion ?req (Inr (msg # rest))]"
        obtain messages2 es1 where
          l: "tool_calls_loop L w cfg scriptMap skillPath ?h1 tcs (messages @ [msg]) = (messages2, es1)"
          by (cases "tool_calls_loop L w cfg scriptMap skillPath ?h1 tcs (messages @ [msg])")
        obtain r messages3 es2 where
          rr: "rounds L w client cfg availableTools scriptMap skillPath (i + 1) (?h1 @ es1) messages2
                 = (r, messages3, es2)"
          by (cases "rounds L w client cfg availableTools scriptMap skillPath (i + 1) (?h1 @ es1) messages2")
        have n: "n = 10 - (i + 1)" using Suc.hyps(2) by simp
        have ih: "P (i + 1) (?h1 @ es1) messages2 (r, messages3, es2)"
          using Suc.hyps(1) [OF n, of "?h1 @ es1" messages2] rr by simp
        have "P i h messages (r, messages3, [ChatCompletion ?req (Inr (msg # rest))] @ es1 @ es2)"
          using tools [OF lt resp Some l] rr ih by simp
        then show ?thesis
          using resp Some l rr lt
          by (simp add: rounds.simps [of _ _ _ _ _ _ _ i] Let_def)
      qed
    qed
  qed
qed






lemma rounds_output:
  "fst (rounds L w client cfg availableTools scriptMap skillPath i h messages) = Inr out \<longrightarrow>
   (\<exists>msg rest.
      chat_responses (snd (snd (rounds L w client cfg availableTools scriptMap skillPath i h messages))) \<noteq> [] \<and>
      last (chat_responses (snd (snd (rounds L w client cfg availableTools scriptMap skillPath i h messages))))
        = Inr (msg # rest) \<and>
      fst (snd (rounds L w client cfg availableTools scriptMap skillPath i h messages)) \<noteq> [] \<and>
      last (fst (snd (rounds L w client cfg availableTools scriptMap skillPath i h messages))) = msg \<and>
      ToolCalls msg = None \<and> out = Content msg)"
proof (induction i h messages rule: rounds_induct_rule [where L = L and w = w and cfg = cfg
      and scriptMap = scriptMap and skillPath = skillPath and client = client and availableTools = availableTools])
  case (tools i h messages msg rest tcs messages2 es1 r messages3 es2)
  have "chat_responses es1 = []"
    using tool_calls_loop_no_chat [of L w cfg scriptMap skillPath _ tcs "messages @ [msg]"] tools(4)
    by (metis snd_conv)
  then show ?case using tools by auto
qed auto


lemma tool_role_initial [simp]: "tool_role_messages (initial_messages userPrompt skill) = []"
  by (simp add: tool_role_messages_def initial_messages_def ChatMessageRoleTool_def
      ChatMessageRoleSystem_def ChatMessageRoleUser_def)



text \<open>
  C2. When \<open>executeSkillWithTools\<close> returns an output without error, the last message
  of the conversation is the assistant message of the last completion, it carries no
  tool calls, and the output is its content.
\<close>

theorem final_output_is_last_assistant_message:
  "executeSkillWithTools L w client GenerateToolDefinitions h userPrompt skill cfg = (Inr out, messages, es) \<Longrightarrow>
     \<exists>msg rest. chat_responses es \<noteq> [] \<and> last (chat_responses es) = Inr (msg # rest) \<and>
        messages \<noteq> [] \<and> last messages = msg \<and> ToolCalls msg = None \<and> out = Content msg"
proof -
  assume run: "executeSkillWithTools L w client GenerateToolDefinitions h userPrompt skill cfg = (Inr out, messages, es)"
  obtain availableTools scriptMap where g: "GenerateToolDefinitions skill = (availableTools, scriptMap)"
    by (cases "GenerateToolDefinitions skill")
  let ?R = "rounds L w client cfg availableTools scriptMap (Path skill) 0 h (initial_messages userPrompt skill)"
  from run g have R: "?R = (Inr out, messages, es)" by (simp add: executeSkillWithTools_def)
  show ?thesis
    using rounds_output [of L w client cfg availableTools scriptMap "Path skill" 0 h
        "initial_messages userPrompt skill" out] R by simp
qed

subsection \<open>One round of the loop, unfolded\<close>

lemma rounds_final:
  "i < 10 \<Longrightarrow> client h (round_request cfg availableTools messages) = Inr (msg # rest) \<Longrightarrow>
   ToolCalls msg = None \<Longrightarrow>
   rounds L w client cfg availableTools scriptMap skillPath i h messages
     = (Inr (Content msg), messages @ [msg],
        [ChatCompletion (round_request cfg availableTools messages) (Inr (msg # rest))])"
  by (simp add: rounds.simps [of _ _ _ _ _ _ _ i] Let_def)


lemma ToLower_n [simp]: "ToLower ''n'' \<noteq> ''y''"
  by (simp add: ToLower_def ToLower_char_def)





theorem final_output_is_last_assistant_message_witness:
  "executeSkillWithTools sample_lib sample_world answering no_scripts [] ''hi'' sample_skill sample_cfg
     = (Inr ''All done.'', initial_messages ''hi'' sample_skill @ [final_message],
        [ChatCompletion (round_request sample_cfg [] (initial_messages ''hi'' sample_skill))
           (Inr [final_message])]) \<and>
   last (initial_messages ''hi'' sample_skill @ [final_message]) = final_message \<and>
   ToolCalls final_message = None \<and> Content final_message = ''All done.''"
proof -
  have run: "executeSkillWithTools sample_lib sample_world answering no_scripts [] ''hi'' sample_skill sample_cfg
     = (Inr ''All done.'', initial_messages ''hi'' sample_skill @ [final_message],
        [ChatCompletion (round_request sample_cfg [] (initial_messages ''hi'' sample_skill))
           (Inr [final_message])])"
    by (simp add: executeSkillWithTools_def no_scripts_def rounds_final [where rest = "[]"]
        answering_def final_message_def)
  from final_output_is_last_assistant_message [OF run] run show ?thesis
    by (simp add: final_message_def)
qed



lemma run_python_run:
  assumes "run_python w h pythonExe scriptPath args = (r, es)"
  shows "let env = Environ w h;
             cmd = \<lparr>cmd_Path = pythonExe, cmd_Args = pythonExe # scriptPath # args, cmd_Env = env\<rparr>;
             x = cmd_Run w (h @ [ReadEnviron env]) cmd
         in es = [ReadEnviron env, RanCmd cmd x] \<and>
            (\<forall>stdout stderr. x = (None, stdout, stderr) \<longrightarrow> r = Inr (stdout @ stderr)) \<and>
            (\<forall>err stdout stderr. x = (Some err, stdout, stderr) \<longrightarrow> isl r)"
proof -
  let ?env = "Environ w h"
  let ?cmd = "\<lparr>cmd_Path = pythonExe, cmd_Args = pythonExe # scriptPath # args, cmd_Env = ?env\<rparr>"
  obtain err stdout stderr where x: "cmd_Run w (h @ [ReadEnviron ?env]) ?cmd = (err, stdout, stderr)"
    by (cases "cmd_Run w (h @ [ReadEnviron ?env]) ?cmd")
  have "es = [ReadEnviron ?env, RanCmd ?cmd (err, stdout, stderr)]"
    using assms x by (cases err) (simp_all add: run_python_def Let_def)
  moreover have "err = None \<longrightarrow> r = Inr (stdout @ stderr)"
    using assms x by (cases err) (simp_all add: run_python_def Let_def)
  moreover have "err \<noteq> None \<longrightarrow> isl r"
    using assms x by (cases err) (auto simp: run_python_def Let_def)
  ultimately show ?thesis using x by (simp add: Let_def)
qed

text \<open>
  C9. \<open>RunPythonScript\<close> looks \<open>python3\<close> up first, and \<open>python\<close> exactly when that
  lookup failed. It returns an error without having run a command exactly when both
  lookups failed; the error then wraps that of the second lookup. Otherwise it runs one
  command: the interpreter found, with the script and its arguments, in the environment
  of the process. When that run ends without error the result is stdout followed by
  stderr; when it ends with an error the result is an error.
\<close>

theorem RunPythonScript_interpreter_and_output:
  "RunPythonScript w h scriptPath args = (r, es) \<Longrightarrow>
     (let r3 = LookPath w h ''python3'';
          l3 = [LookedPath ''python3'' r3];
          r2 = LookPath w (h @ l3) ''python'';
          looked = (if isl r3 then l3 @ [LookedPath ''python'' r2] else l3)
      in take (length looked) es = looked \<and>
         ((\<exists>x. LookedPath ''python'' x \<in> set es) \<longleftrightarrow> isl r3) \<and>
         ((isl r \<and> ran_cmds es = []) \<longleftrightarrow> (isl r3 \<and> isl r2)) \<and>
         (isl r3 \<and> isl r2 \<longrightarrow>
            es = looked \<and> r = Inl (''failed to find python3 or python in PATH: '' @ projl r2)) \<and>
         (\<forall>pythonExe. r3 = Inr pythonExe \<or> (isl r3 \<and> r2 = Inr pythonExe) \<longrightarrow>
            (let env = Environ w (h @ looked);
                 cmd = \<lparr>cmd_Path = pythonExe, cmd_Args = pythonExe # scriptPath # args, cmd_Env = env\<rparr>;
                 x = cmd_Run w (h @ looked @ [ReadEnviron env]) cmd
             in es = looked @ [ReadEnviron env, RanCmd cmd x] \<and>
                (\<forall>stdout stderr. x = (None, stdout, stderr) \<longrightarrow> r = Inr (stdout @ stderr)) \<and>
                (\<forall>err stdout stderr. x = (Some err, stdout, stderr) \<longrightarrow> isl r))))"
proof -
  assume run: "RunPythonScript w h scriptPath args = (r, es)"
  let ?l3 = "LookedPath ''python3'' (LookPath w h ''python3'')"
  show ?thesis
  proof (cases "LookPath w h ''python3''")
    case (Inr pythonExe)
    let ?h1 = "h @ [LookedPath ''python3'' (Inr pythonExe)]"
    obtain r' es' where rp: "run_python w ?h1 pythonExe scriptPath args = (r', es')"
      by (cases "run_python w ?h1 pythonExe scriptPath args")
    from run Inr rp have res: "r = r'" "es = LookedPath ''python3'' (Inr pythonExe) # es'"
      by (simp_all add: RunPythonScript_def Let_def)
    obtain err stdout stderr where x:
      "cmd_Run w (?h1 @ [ReadEnviron (Environ w ?h1)])
         \<lparr>cmd_Path = pythonExe, cmd_Args = pythonExe # scriptPath # args, cmd_Env = Environ w ?h1\<rparr>
       = (err, stdout, stderr)"
      by (metis prod_cases3)
    from run_python_run [OF rp] x
    have es': "es' = [ReadEnviron (Environ w ?h1),
        RanCmd \<lparr>cmd_Path = pythonExe, cmd_Args = pythonExe # scriptPath # args, cmd_Env = Environ w ?h1\<rparr>
          (err, stdout, stderr)]"
      and ok: "err = None \<longrightarrow> r' = Inr (stdout @ stderr)"
      and bad: "err \<noteq> None \<longrightarrow> isl r'"
      by (simp_all add: Let_def)
    from ok bad have "isl r' \<longleftrightarrow> err \<noteq> None" by (cases err) auto
    with Inr res es' x ok bad show ?thesis
      by (simp add: Let_def)
  next
    case (Inl e3)
    show ?thesis
    proof (cases "LookPath w (h @ [LookedPath ''python3'' (Inl e3)]) ''python''")
      case (Inl e2)
      from run \<open>LookPath w h ''python3'' = Inl e3\<close> Inl
      have "r = Inl (''failed to find python3 or python in PATH: '' @ e2)"
        and "es = [LookedPath ''python3'' (Inl e3), LookedPath ''python'' (Inl e2)]"
        by (simp_all add: RunPythonScript_def Let_def)
      with \<open>LookPath w h ''python3'' = Inl e3\<close> Inl show ?thesis
        by (simp add: Let_def)
    next
      case (Inr pythonExe)
      let ?h2 = "h @ [LookedPath ''python3'' (Inl e3), LookedPath ''python'' (Inr pythonExe)]"
      obtain r' es' where rp: "run_python w ?h2 pythonExe scriptPath args = (r', es')"
        by (cases "run_python w ?h2 pythonExe scriptPath args")
      from run \<open>LookPath w h ''python3'' = Inl e3\<close> Inr rp
      have res: "r = r'"
        "es = LookedPath ''python3'' (Inl e3) # LookedPath ''python'' (Inr pythonExe) # es'"
        by (simp_all add: RunPythonScript_def Let_def)
      obtain err stdout stderr where x:
        "cmd_Run w (?h2 @ [ReadEnviron (Environ w ?h2)])
           \<lparr>cmd_Path = pythonExe, cmd_Args = pythonExe # scriptPath # args, cmd_Env = Environ w ?h2\<rparr>
         = (err, stdout, stderr)"
        by (metis prod_cases3)
      from run_python_run [OF rp] x
      have es': "es' = [ReadEnviron (Environ w ?h2),
          RanCmd \<lparr>cmd_Path = pythonExe, cmd_Args = pythonExe # scriptPath # args, cmd_Env = Environ w ?h2\<rparr>
            (err, stdout, stderr)]"
        and ok: "err = None \<longrightarrow> r' = Inr (stdout @ stderr)"
        and bad: "err \<noteq> None \<longrightarrow> isl r'"
        by (simp_all add: Let_def)
      with \<open>LookPath w h ''python3'' = Inl e3\<close> Inr res x show ?thesis
        by (simp add: Let_def)
    qed
  qed
qed

theorem RunPythonScript_interpreter_and_output_witness:
  "RunPythonScript python3_world [] ''a.py'' [''1'']
     = (Inr ''outerr'',
        [LookedPath ''python3'' (Inr ''/usr/bin/python3''),
         ReadEnviron [''HOME=/root''],
         RanCmd \<lparr>cmd_Path = ''/usr/bin/python3'', cmd_Args = [''/usr/bin/python3'', ''a.py'', ''1''],
                 cmd_Env = [''HOME=/root'']\<rparr>
           (None, ''out'', ''err'')]) \<and>
   isl (fst (RunPythonScript python3_world [] ''bad.py'' [])) \<and>
   snd (RunPythonScript python3_world [] ''bad.py'' [])
     = [LookedPath ''python3'' (Inr ''/usr/bin/python3''),
        ReadEnviron [''HOME=/root''],
        RanCmd \<lparr>cmd_Path = ''/usr/bin/python3'', cmd_Args = [''/usr/bin/python3'', ''bad.py''],
                cmd_Env = [''HOME=/root'']\<rparr>
          (Some ''exit status 1'', [], ''boom'')] \<and>
   RunPythonScript sample_world [] ''a.py'' [''1'']
     = (Inr ''outerr'',
        [LookedPath ''python3'' (Inl ''not found''), LookedPath ''python'' (Inr ''/usr/bin/python''),
         ReadEnviron [],
         RanCmd \<lparr>cmd_Path = ''/usr/bin/python'', cmd_Args = [''/usr/bin/python'', ''a.py'', ''1''], cmd_Env = []\<rparr>
           (None, ''out'', ''err'')]) \<and>
   RunPythonScript offline_world [] ''a.py'' []
     = (Inl ''failed to find python3 or python in PATH: not found'',
        [LookedPath ''python3'' (Inl ''not found''), LookedPath ''python'' (Inl ''not found'')])"
proof -
  obtain r1 es1 where run1: "RunPythonScript python3_world [] ''a.py'' [''1''] = (r1, es1)"
    by (cases "RunPythonScript python3_world [] ''a.py'' [''1'']")
  obtain r2 es2 where run2: "RunPythonScript python3_world [] ''bad.py'' [] = (r2, es2)"
    by (cases "RunPythonScript python3_world [] ''bad.py'' []")
  obtain r3 es3 where run3: "RunPythonScript sample_world [] ''a.py'' [''1''] = (r3, es3)"
    by (cases "RunPythonScript sample_world [] ''a.py'' [''1'']")
  obtain r4 es4 where run4: "RunPythonScript offline_world [] ''a.py'' [] = (r4, es4)"
    by (cases "RunPythonScript offline_world [] ''a.py'' []")
  from RunPythonScript_interpreter_and_output [OF run1]
  have 1: "r1 = Inr ''outerr''"
    "es1 = [LookedPath ''python3'' (Inr ''/usr/bin/python3''),
         ReadEnviron [''HOME=/root''],
         RanCmd \<lparr>cmd_Path = ''/usr/bin/python3'', cmd_Args = [''/usr/bin/python3'', ''a.py'', ''1''],
                 cmd_Env = [''HOME=/root'']\<rparr>
           (None, ''out'', ''err'')]"
    by (simp_all add: python3_world_def Let_def)
  from RunPythonScript_interpreter_and_output [OF run2]
  have 2: "isl r2"
    "es2 = [LookedPath ''python3'' (Inr ''/usr/bin/python3''),
        ReadEnviron [''HOME=/root''],
        RanCmd \<lparr>cmd_Path = ''/usr/bin/python3'', cmd_Args = [''/usr/bin/python3'', ''bad.py''],
                cmd_Env = [''HOME=/root'']\<rparr>
          (Some ''exit status 1'', [], ''boom'')]"
    by (simp_all add: python3_world_def Let_def)
  from RunPythonScript_interpreter_and_output [OF run3]
  have 3: "r3 = Inr ''outerr''"
    "es3 = [LookedPath ''python3'' (Inl ''not found''), LookedPath ''python'' (Inr ''/usr/bin/python''),
         ReadEnviron [],
         RanCmd \<lparr>cmd_Path = ''/usr/bin/python'', cmd_Args = [''/usr/bin/python'', ''a.py'', ''1''], cmd_Env = []\<rparr>
           (None, ''out'', ''err'')]"
    by (simp_all add: sample_world_def Let_def)
  from RunPythonScript_interpreter_and_output [OF run4]
  have 4: "r4 = Inl ''failed to find python3 or python in PATH: not found''"
    "es4 = [LookedPath ''python3'' (Inl ''not found''), LookedPath ''python'' (Inl ''not found'')]"
    by (simp_all add: offline_world_def Let_def)
  from run1 run2 run3 run4 1 2 3 4 show ?thesis by simp
qed

text \<open>
  C10. For a \<open>read_file\<close> call whose path is relative, with a skill root that is not
  empty: \<open>os.Stat\<close> is asked about the path joined to the skill root, and the file reader
  receives the joined path when \<open>Stat\<close> succeeded, the path as given when it failed. The
  call does not fail because of the missing file under the skill root: what it returns
  is what the reader returns for the path as given.
\<close>

theorem read_file_resolves_only_an_existing_file:
  assumes "Name (Function tc) = ''read_file''"
    and "unmarshal_filePath L (Arguments (Function tc)) = Inr filePath"
    and "\<not> IsAbs L filePath" and "skillPath \<noteq> []"
  shows "executeToolCall L w h tc scriptMap skillPath =
     (let resolvedPath = Join L skillPath filePath;
          err = Stat w h resolvedPath;
          path = (if err = None then resolvedPath else filePath);
          r = tool_pkg w (h @ [Statted resolvedPath err]) (ReadFile path)
      in ((case r of
             Inl e \<Rightarrow> Inl (''tool execution failed for read_file: '' @ e)
           | Inr content \<Rightarrow> Inr content),
          [Statted resolvedPath err, ToolOp (ReadFile path) r]))"
  using assms
  by (simp add: executeToolCall_def read_file_path_def call_tool_def tool_failed_def Let_def
      split: sum.splits)

theorem read_file_resolves_only_an_existing_file_witness:
  "executeToolCall sample_lib sample_world [] sample_call Map.empty ''/skills/notes''
     = (Inr ''data'',
        [Statted ''/skills/notes/notes.txt'' (Some ''no such file or directory''),
         ToolOp (ReadFile ''notes.txt'') (Inr ''data'')])"
proof -
  have 1: "Name (Function sample_call) = ''read_file''" by (simp add: sample_call_def)
  have 2: "unmarshal_filePath sample_lib (Arguments (Function sample_call)) = Inr ''notes.txt''"
    by (simp add: sample_call_def sample_lib_def)
  have 3: "\<not> IsAbs sample_lib ''notes.txt''" by (simp add: sample_lib_def HasPrefix_def)
  have 4: "''/skills/notes'' \<noteq> []" by simp
  from read_file_resolves_only_an_existing_file [OF 1 2 3 4, of sample_world "[]" Map.empty]
  show ?thesis by (simp add: sample_lib_def sample_world_def Let_def)
qed

section \<open>The subagents: search, analysis and rendering\<close>

lemma chat_requests_append [simp]:
  "chat_requests (xs @ ys) = chat_requests xs @ chat_requests ys"
  by (induction xs rule: chat_requests.induct) simp_all

lemma chat_requests_log_line [simp]: "chat_requests (log_line interactionHandler line) = []"
  by (simp add: log_line_def split: option.splits)


lemma Execute_v1_unfold:
  "web_search w interactionHandler 100 h (search_query task) = (r, es1) \<Longrightarrow>
   SearchSubagent_Execute_v1 w interactionHandler h task =
     (case r of
        Inl err \<Rightarrow> ((search_failed err, Some err), es1)
      | Inr searchResult \<Rightarrow>
          ((search_succeeded (search_query task)
              (combined_text ''Web Search Results:'' ''Wikipedia Results:''
                 (tool_pkg w (h @ es1) (WikipediaSearch (search_query task))) searchResult), None),
           es1 @ [ToolOp (WikipediaSearch (search_query task))
                    (tool_pkg w (h @ es1) (WikipediaSearch (search_query task)))]))"
  by (simp add: SearchSubagent_Execute_v1_def with_wikipedia_def call_tool_def Let_def split: sum.splits)

lemma Execute_v2_unfold:
  "web_search w interactionHandler 50
     (h @ log_line interactionHandler (zh_search_started @ Description task)) (search_query task) = (r, es1) \<Longrightarrow>
   SearchSubagent_Execute_v2 w interactionHandler h task =
     (let es0 = log_line interactionHandler (zh_search_started @ Description task) in
      case r of
        Inl err \<Rightarrow> ((search_failed err, Some err), es0 @ es1)
      | Inr searchResult \<Rightarrow>
          (let wiki = tool_pkg w (h @ es0 @ es1) (WikipediaSearch (search_query task));
               text = combined_text zh_web_results zh_wiki_results wiki searchResult
           in ((search_succeeded (search_query task) text, None),
               es0 @ es1 @ [ToolOp (WikipediaSearch (search_query task)) wiki]
               @ log_line interactionHandler (zh_retrieved @ Itoa (length text) @ zh_bytes))))"
  by (simp add: SearchSubagent_Execute_v2_def with_wikipedia_def call_tool_def Let_def split: sum.splits)

lemma log_line_events [simp]:
  "ToolOp op r \<notin> set (log_line interactionHandler line)"
  "Reviewed s rv \<notin> set (log_line interactionHandler line)"
  by (simp_all add: log_line_def split: option.splits)

lemma sample_task_fields [simp]:
  "Description (sample_task type parameters) = ''describe''"
  "Parameters (sample_task type parameters) = parameters"
  by (simp_all add: sample_task_def)

lemma search_query_sample [simp]: "search_query (sample_task type Map.empty) = ''describe''"
  by (simp add: search_query_def param_string_def)





lemma web_search_more:
  assumes "tool_pkg w h (TavilySearch query) = Inr s"
    and "ReviewSearchResults ih (h @ [ToolOp (TavilySearch query) (Inr s)]) s = Inr True"
  shows "web_search w (Some ih) limit h query =
     (Inr (case tool_pkg w (h @ [ToolOp (TavilySearch query) (Inr s), Reviewed s (Inr True)])
                  (TavilySearchWithLimit query limit) of
             Inr moreResults \<Rightarrow> moreResults | Inl e \<Rightarrow> s),
      [ToolOp (TavilySearch query) (Inr s), Reviewed s (Inr True),
       ToolOp (TavilySearchWithLimit query limit)
         (tool_pkg w (h @ [ToolOp (TavilySearch query) (Inr s), Reviewed s (Inr True)])
            (TavilySearchWithLimit query limit))])"
  using assms by (simp add: web_search_def call_tool_def review_def Let_def split: sum.splits)

text \<open>
  C5. In both listings, with an interaction handler present: when the Tavily search
  answers with \<open>s\<close> and the reviewer, shown \<open>s\<close>, answers that more results are
  wanted, the subagent makes a second Tavily search with the limit 100 (first listing)
  or 50 (second listing), both between 50 and 100, and then the Wikipedia search; the
  task succeeds, and its output is built from the new results when the second search
  answered and from \<open>s\<close> when it returned an error. The second listing logs a line
  before the first search and one after the last.
\<close>

theorem more_results_replace_the_original_ones:
  "(SearchSubagent_Execute_v1 w (Some ih) h task = ((res, err), es) \<and>
    tool_pkg w h (TavilySearch (search_query task)) = Inr s \<and>
    ReviewSearchResults ih (h @ [ToolOp (TavilySearch (search_query task)) (Inr s)]) s = Inr True \<longrightarrow>
      (let q = search_query task;
           searched = h @ [ToolOp (TavilySearch q) (Inr s), Reviewed s (Inr True)]
       in \<exists>limit m wiki. 50 \<le> limit \<and> limit \<le> 100 \<and> limit = 100 \<and>
            m = tool_pkg w searched (TavilySearchWithLimit q limit) \<and>
            wiki = tool_pkg w (searched @ [ToolOp (TavilySearchWithLimit q limit) m]) (WikipediaSearch q) \<and>
            es = [ToolOp (TavilySearch q) (Inr s), Reviewed s (Inr True),
                  ToolOp (TavilySearchWithLimit q limit) m, ToolOp (WikipediaSearch q) wiki] \<and>
            Success res \<and> err = None \<and>
            (\<forall>moreResults. m = Inr moreResults \<longrightarrow>
               Output res = combined_text ''Web Search Results:'' ''Wikipedia Results:'' wiki moreResults) \<and>
            (\<forall>e. m = Inl e \<longrightarrow>
               Output res = combined_text ''Web Search Results:'' ''Wikipedia Results:'' wiki s))) \<and>
   (SearchSubagent_Execute_v2 w (Some ih) h task = ((res, err), es) \<and>
    tool_pkg w (h @ [Logged (zh_search_started @ Description task)]) (TavilySearch (search_query task)) = Inr s \<and>
    ReviewSearchResults ih ((h @ [Logged (zh_search_started @ Description task)]) @ [ToolOp (TavilySearch (search_query task)) (Inr s)]) s = Inr True \<longrightarrow>
      (let q = search_query task;
           searched = (h @ [Logged (zh_search_started @ Description task)]) @ [ToolOp (TavilySearch q) (Inr s), Reviewed s (Inr True)]
       in \<exists>limit m wiki. 50 \<le> limit \<and> limit \<le> 100 \<and> limit = 50 \<and>
            m = tool_pkg w searched (TavilySearchWithLimit q limit) \<and>
            wiki = tool_pkg w (searched @ [ToolOp (TavilySearchWithLimit q limit) m]) (WikipediaSearch q) \<and>
            es = [Logged (zh_search_started @ Description task), ToolOp (TavilySearch q) (Inr s), Reviewed s (Inr True),
                  ToolOp (TavilySearchWithLimit q limit) m, ToolOp (WikipediaSearch q) wiki,
                 Logged (zh_retrieved @ Itoa (length (Output res)) @ zh_bytes)] \<and>
            Success res \<and> err = None \<and>
            (\<forall>moreResults. m = Inr moreResults \<longrightarrow>
               Output res = combined_text zh_web_results zh_wiki_results wiki moreResults) \<and>
            (\<forall>e. m = Inl e \<longrightarrow>
               Output res = combined_text zh_web_results zh_wiki_results wiki s)))"
proof (intro conjI impI)
  assume a: "SearchSubagent_Execute_v1 w (Some ih) h task = ((res, err), es) \<and>
    tool_pkg w h (TavilySearch (search_query task)) = Inr s \<and>
    ReviewSearchResults ih (h @ [ToolOp (TavilySearch (search_query task)) (Inr s)]) s = Inr True"
  let ?q = "search_query task"
  let ?searched = "h @ [ToolOp (TavilySearch ?q) (Inr s), Reviewed s (Inr True)]"
  let ?m = "tool_pkg w ?searched (TavilySearchWithLimit ?q 100)"
  from a have ws: "web_search w (Some ih) 100 h ?q =
     (Inr (case ?m of Inr moreResults \<Rightarrow> moreResults | Inl e \<Rightarrow> s),
      [ToolOp (TavilySearch ?q) (Inr s), Reviewed s (Inr True), ToolOp (TavilySearchWithLimit ?q 100) ?m])"
    using web_search_more [of w h ?q s ih 100] by simp
  from a have run: "SearchSubagent_Execute_v1 w (Some ih) h task = ((res, err), es)" by simp
  show "(let q = search_query task;
           searched = h @ [ToolOp (TavilySearch q) (Inr s), Reviewed s (Inr True)]
       in \<exists>limit m wiki. 50 \<le> limit \<and> limit \<le> 100 \<and> limit = 100 \<and>
            m = tool_pkg w searched (TavilySearchWithLimit q limit) \<and>
            wiki = tool_pkg w (searched @ [ToolOp (TavilySearchWithLimit q limit) m]) (WikipediaSearch q) \<and>
            es = [ToolOp (TavilySearch q) (Inr s), Reviewed s (Inr True),
                  ToolOp (TavilySearchWithLimit q limit) m, ToolOp (WikipediaSearch q) wiki] \<and>
            Success res \<and> err = None \<and>
            (\<forall>moreResults. m = Inr moreResults \<longrightarrow>
               Output res = combined_text ''Web Search Results:'' ''Wikipedia Results:'' wiki moreResults) \<and>
            (\<forall>e. m = Inl e \<longrightarrow>
               Output res = combined_text ''Web Search Results:'' ''Wikipedia Results:'' wiki s))"
    using run [unfolded Execute_v1_unfold [OF ws]]
    by (cases ?m) (auto simp: Let_def search_succeeded_def)
next
  assume a: "SearchSubagent_Execute_v2 w (Some ih) h task = ((res, err), es) \<and>
    tool_pkg w (h @ [Logged (zh_search_started @ Description task)]) (TavilySearch (search_query task)) = Inr s \<and>
    ReviewSearchResults ih ((h @ [Logged (zh_search_started @ Description task)]) @ [ToolOp (TavilySearch (search_query task)) (Inr s)]) s = Inr True"
  let ?q = "search_query task"
  let ?h0 = "h @ [Logged (zh_search_started @ Description task)]"
  let ?searched = "?h0 @ [ToolOp (TavilySearch ?q) (Inr s), Reviewed s (Inr True)]"
  let ?m = "tool_pkg w ?searched (TavilySearchWithLimit ?q 50)"
  have h0: "h @ log_line (Some ih) (zh_search_started @ Description task) = ?h0"
    by (simp add: log_line_def)
  from a have ws: "web_search w (Some ih) 50
       (h @ log_line (Some ih) (zh_search_started @ Description task)) ?q =
     (Inr (case ?m of Inr moreResults \<Rightarrow> moreResults | Inl e \<Rightarrow> s),
      [ToolOp (TavilySearch ?q) (Inr s), Reviewed s (Inr True), ToolOp (TavilySearchWithLimit ?q 50) ?m])"
    unfolding h0 using web_search_more [of w ?h0 ?q s ih 50] by simp
  from a have run: "SearchSubagent_Execute_v2 w (Some ih) h task = ((res, err), es)" by simp
  show "(let q = search_query task;
           searched = (h @ [Logged (zh_search_started @ Description task)]) @ [ToolOp (TavilySearch q) (Inr s), Reviewed s (Inr True)]
       in \<exists>limit m wiki. 50 \<le> limit \<and> limit \<le> 100 \<and> limit = 50 \<and>
            m = tool_pkg w searched (TavilySearchWithLimit q limit) \<and>
            wiki = tool_pkg w (searched @ [ToolOp (TavilySearchWithLimit q limit) m]) (WikipediaSearch q) \<and>
            es = [Logged (zh_search_started @ Description task), ToolOp (TavilySearch q) (Inr s), Reviewed s (Inr True),
                  ToolOp (TavilySearchWithLimit q limit) m, ToolOp (WikipediaSearch q) wiki,
                 Logged (zh_retrieved @ Itoa (length (Output res)) @ zh_bytes)] \<and>
            Success res \<and> err = None \<and>
            (\<forall>moreResults. m = Inr moreResults \<longrightarrow>
               Output res = combined_text zh_web_results zh_wiki_results wiki moreResults) \<and>
            (\<forall>e. m = Inl e \<longrightarrow>
               Output res = combined_text zh_web_results zh_wiki_results wiki s))"
    using run [unfolded Execute_v2_unfold [OF ws]]
    by (cases ?m) (auto simp: Let_def log_line_def search_succeeded_def)
qed

theorem more_results_replace_the_original_ones_witness:
  "snd (SearchSubagent_Execute_v1 tavily_world (Some wants_more) [] (sample_task TaskTypeSearch Map.empty))
     = [ToolOp (TavilySearch ''describe'') (Inr ''TAVILY-OK''), Reviewed ''TAVILY-OK'' (Inr True),
        ToolOp (TavilySearchWithLimit ''describe'' 100) (Inr ''TAVILY-MORE''),
        ToolOp (WikipediaSearch ''describe'') (Inl ''unreachable'')] \<and>
   Output (fst (fst (SearchSubagent_Execute_v1 tavily_world (Some wants_more) [] (sample_task TaskTypeSearch Map.empty))))
     = ''TAVILY-MORE'' \<and>
   snd (SearchSubagent_Execute_v1 tavily_once_world (Some wants_more) [] (sample_task TaskTypeSearch Map.empty))
     = [ToolOp (TavilySearch ''describe'') (Inr ''TAVILY-OK''), Reviewed ''TAVILY-OK'' (Inr True),
        ToolOp (TavilySearchWithLimit ''describe'' 100) (Inl ''rate limited''),
        ToolOp (WikipediaSearch ''describe'') (Inr [])] \<and>
   Output (fst (fst (SearchSubagent_Execute_v1 tavily_once_world (Some wants_more) [] (sample_task TaskTypeSearch Map.empty))))
     = ''TAVILY-OK'' \<and>
   snd (SearchSubagent_Execute_v2 tavily_world (Some wants_more) [] (sample_task TaskTypeSearch Map.empty))
     = [Logged (zh_search_started @ ''describe''), ToolOp (TavilySearch ''describe'') (Inr ''TAVILY-OK''), Reviewed ''TAVILY-OK'' (Inr True),
        ToolOp (TavilySearchWithLimit ''describe'' 50) (Inr ''TAVILY-MORE''),
        ToolOp (WikipediaSearch ''describe'') (Inl ''unreachable''),
        Logged (zh_retrieved @ Itoa (length ''TAVILY-MORE'') @ zh_bytes)] \<and>
   Output (fst (fst (SearchSubagent_Execute_v2 tavily_world (Some wants_more) [] (sample_task TaskTypeSearch Map.empty))))
     = ''TAVILY-MORE'' \<and>
   snd (SearchSubagent_Execute_v2 tavily_once_world (Some wants_more) [] (sample_task TaskTypeSearch Map.empty))
     = [Logged (zh_search_started @ ''describe''), ToolOp (TavilySearch ''describe'') (Inr ''TAVILY-OK''), Reviewed ''TAVILY-OK'' (Inr True),
        ToolOp (TavilySearchWithLimit ''describe'' 50) (Inl ''rate limited''),
        ToolOp (WikipediaSearch ''describe'') (Inr []),
        Logged (zh_retrieved @ Itoa (length ''TAVILY-OK'') @ zh_bytes)] \<and>
   Output (fst (fst (SearchSubagent_Execute_v2 tavily_once_world (Some wants_more) [] (sample_task TaskTypeSearch Map.empty))))
     = ''TAVILY-OK''"
proof -
  let ?task = "sample_task TaskTypeSearch Map.empty"
  let ?run1 = "SearchSubagent_Execute_v1 tavily_world (Some wants_more) [] ?task"
  obtain res1 err1 es1 where run1: "?run1 = ((res1, err1), es1)"
    by (cases ?run1) auto
  from more_results_replace_the_original_ones
    [where w = tavily_world and ih = wants_more and h = "[]" and task = ?task
       and res = res1 and err = err1 and es = es1 and s = "''TAVILY-OK''", THEN conjunct1]
    run1
  have 1: "es1 = [ToolOp (TavilySearch ''describe'') (Inr ''TAVILY-OK''), Reviewed ''TAVILY-OK'' (Inr True),
        ToolOp (TavilySearchWithLimit ''describe'' 100) (Inr ''TAVILY-MORE''),
        ToolOp (WikipediaSearch ''describe'') (Inl ''unreachable'')]"
    "Output res1 = ''TAVILY-MORE''"
    by (simp_all add: tavily_world_def wants_more_def combined_text_def Let_def)
  let ?run2 = "SearchSubagent_Execute_v1 tavily_once_world (Some wants_more) [] ?task"
  obtain res2 err2 es2 where run2: "?run2 = ((res2, err2), es2)"
    by (cases ?run2) auto
  from more_results_replace_the_original_ones
    [where w = tavily_once_world and ih = wants_more and h = "[]" and task = ?task
       and res = res2 and err = err2 and es = es2 and s = "''TAVILY-OK''", THEN conjunct1]
    run2
  have 2: "es2 = [ToolOp (TavilySearch ''describe'') (Inr ''TAVILY-OK''), Reviewed ''TAVILY-OK'' (Inr True),
        ToolOp (TavilySearchWithLimit ''describe'' 100) (Inl ''rate limited''),
        ToolOp (WikipediaSearch ''describe'') (Inr [])]"
    "Output res2 = ''TAVILY-OK''"
    by (simp_all add: tavily_once_world_def wants_more_def combined_text_def Let_def)
  let ?run3 = "SearchSubagent_Execute_v2 tavily_world (Some wants_more) [] ?task"
  obtain res3 err3 es3 where run3: "?run3 = ((res3, err3), es3)"
    by (cases ?run3) auto
  from more_results_replace_the_original_ones
    [where w = tavily_world and ih = wants_more and h = "[]" and task = ?task
       and res = res3 and err = err3 and es = es3 and s = "''TAVILY-OK''", THEN conjunct2]
    run3
  have 3: "es3 = [Logged (zh_search_started @ ''describe''), ToolOp (TavilySearch ''describe'') (Inr ''TAVILY-OK''), Reviewed ''TAVILY-OK'' (Inr True),
        ToolOp (TavilySearchWithLimit ''describe'' 50) (Inr ''TAVILY-MORE''),
        ToolOp (WikipediaSearch ''describe'') (Inl ''unreachable''),
        Logged (zh_retrieved @ Itoa (length ''TAVILY-MORE'') @ zh_bytes)]"
    "Output res3 = ''TAVILY-MORE''"
    by (simp_all add: tavily_world_def wants_more_def combined_text_def Let_def)
  let ?run4 = "SearchSubagent_Execute_v2 tavily_once_world (Some wants_more) [] ?task"
  obtain res4 err4 es4 where run4: "?run4 = ((res4, err4), es4)"
    by (cases ?run4) auto
  from more_results_replace_the_original_ones
    [where w = tavily_once_world and ih = wants_more and h = "[]" and task = ?task
       and res = res4 and err = err4 and es = es4 and s = "''TAVILY-OK''", THEN conjunct2]
    run4
  have 4: "es4 = [Logged (zh_search_started @ ''describe''), ToolOp (TavilySearch ''describe'') (Inr ''TAVILY-OK''), Reviewed ''TAVILY-OK'' (Inr True),
        ToolOp (TavilySearchWithLimit ''describe'' 50) (Inl ''rate limited''),
        ToolOp (WikipediaSearch ''describe'') (Inr []),
        Logged (zh_retrieved @ Itoa (length ''TAVILY-OK'') @ zh_bytes)]"
    "Output res4 = ''TAVILY-OK''"
    by (simp_all add: tavily_once_world_def wants_more_def combined_text_def Let_def)
  from run1 run2 run3 run4 1 2 3 4 show ?thesis by simp
qed




text \<open>
  C7, with the English prefix for a context that is a sequence of strings, holds of
  neither listing: for a context of the two entries \<open>a\<close> and \<open>b\<close> the second listing
  starts the prompt with the Chinese text, and the first listing, which reads the
  context as one string, sends the description alone.
\<close>

theorem analysis_prompt_counterexample:
  "map (\<lambda>req. Content (last (Messages req)))
     (chat_requests (snd (AnalysisSubagent_Execute_v2 failing_client ''gpt-4o'' None []
        (sample_task TaskTypeAnalyze [''context'' \<mapsto> StringSlice [''a'', ''b'']]))))
     \<noteq> [''Analyze the following information and describe:'' @ newline @ newline
          @ ''a'' @ newline @ newline @ ''b''] \<and>
   map (\<lambda>req. Content (last (Messages req)))
     (chat_requests (snd (AnalysisSubagent_Execute_v1 failing_client ''gpt-4o'' []
        (sample_task TaskTypeAnalyze [''context'' \<mapsto> StringSlice [''a'', ''b'']]))))
     = [''describe'']"
  by (simp add: AnalysisSubagent_Execute_v2_def AnalysisSubagent_Execute_v1_def
      analysis_request_v2_def analysis_request_v1_def analysis_prompt_v2_def analysis_prompt_v1_def
      failing_client_def param_string_def param_strings_def log_line_def
      user_message_def system_message_def zh_analyze_prefix_def newline_def Let_def)

text \<open>
  C7, with the prompt of each listing. Each listing sends one chat completion whose messages are a system prompt
  and the user prompt. In the second listing, for a context that is a non-empty sequence
  of strings, the user prompt is the Chinese text \<open>zh_analyze_prefix\<close> (U+5206 U+6790
  U+4EE5 U+4E0B U+4FE1 U+606F U+5E76 and a space), the description, a colon, two
  newlines, and the entries joined with blank lines; for any other context it is the
  description. In the first listing the context is read as one string: when it is one,
  the user prompt is \<open>Analyze the following information and \<close>, the description, a colon,
  two newlines and that string; otherwise (also for a sequence of strings) it is the
  description.
\<close>

theorem analysis_prompt_is_built_from_the_context:
  "(\<exists>systemPrompt.
      map Messages (chat_requests (snd (AnalysisSubagent_Execute_v2 client model interactionHandler h task)))
        = [[system_message systemPrompt,
            user_message
              (case Parameters task ''context'' of
                 Some (StringSlice contextData) \<Rightarrow>
                   if contextData \<noteq> []
                   then zh_analyze_prefix @ Description task @ '':'' @ newline @ newline
                        @ strings_Join contextData (newline @ newline)
                   else Description task
               | _ \<Rightarrow> Description task)]]) \<and>
   (\<exists>systemPrompt.
      map Messages (chat_requests (snd (AnalysisSubagent_Execute_v1 client model h task)))
        = [[system_message systemPrompt,
            user_message
              (case Parameters task ''context'' of
                 Some (String context_data) \<Rightarrow>
                   ''Analyze the following information and '' @ Description task @ '':''
                   @ newline @ newline @ context_data
               | _ \<Rightarrow> Description task)]])"
proof -
  have r2: "chat_requests (snd (AnalysisSubagent_Execute_v2 client model interactionHandler h task))
      = [analysis_request_v2 model task]"
    by (simp add: AnalysisSubagent_Execute_v2_def Let_def split: sum.splits list.splits)
  have r1: "chat_requests (snd (AnalysisSubagent_Execute_v1 client model h task))
      = [analysis_request_v1 model task]"
    by (simp add: AnalysisSubagent_Execute_v1_def Let_def split: sum.splits list.splits)
  have m2: "\<exists>systemPrompt. Messages (analysis_request_v2 model task)
      = [system_message systemPrompt, user_message (analysis_prompt_v2 task)]"
    by (auto simp: analysis_request_v2_def Let_def)
  have m1: "\<exists>systemPrompt. Messages (analysis_request_v1 model task)
      = [system_message systemPrompt, user_message (analysis_prompt_v1 task)]"
    by (auto simp: analysis_request_v1_def)
  have p2: "analysis_prompt_v2 task =
      (case Parameters task ''context'' of
         Some (StringSlice contextData) \<Rightarrow>
           if contextData \<noteq> []
           then zh_analyze_prefix @ Description task @ '':'' @ newline @ newline
                @ strings_Join contextData (newline @ newline)
           else Description task
       | _ \<Rightarrow> Description task)"
    by (simp add: analysis_prompt_v2_def param_strings_def split: option.splits any.splits)
  have p1: "analysis_prompt_v1 task =
      (case Parameters task ''context'' of
         Some (String context_data) \<Rightarrow>
           ''Analyze the following information and '' @ Description task @ '':''
           @ newline @ newline @ context_data
       | _ \<Rightarrow> Description task)"
    by (simp add: analysis_prompt_v1_def param_string_def split: option.splits any.splits)
  from m2 m1 show ?thesis
    unfolding r2 r1 p2 [symmetric] p1 [symmetric] by simp
qed

theorem analysis_prompt_is_built_from_the_context_witness:
  "map (\<lambda>req. Content (last (Messages req)))
     (chat_requests (snd (AnalysisSubagent_Execute_v2 answering ''gpt-4o'' None []
        (sample_task TaskTypeAnalyze [''context'' \<mapsto> StringSlice [''a'', ''b'']]))))
     = [zh_analyze_prefix @ ''describe:'' @ newline @ newline @ ''a'' @ newline @ newline @ ''b''] \<and>
   map (\<lambda>req. Content (last (Messages req)))
     (chat_requests (snd (AnalysisSubagent_Execute_v1 answering ''gpt-4o'' []
        (sample_task TaskTypeAnalyze [''context'' \<mapsto> String ''notes'']))))
     = [''Analyze the following information and describe:'' @ newline @ newline @ ''notes'']"
proof -
  let ?t2 = "sample_task TaskTypeAnalyze [''context'' \<mapsto> StringSlice [''a'', ''b'']]"
  let ?t1 = "sample_task TaskTypeAnalyze [''context'' \<mapsto> String ''notes'']"
  from analysis_prompt_is_built_from_the_context [of answering "''gpt-4o''" None "[]" ?t2]
  obtain sp2 where a: "map Messages (chat_requests (snd (AnalysisSubagent_Execute_v2 answering ''gpt-4o'' None [] ?t2)))
      = [[system_message sp2,
          user_message (zh_analyze_prefix @ ''describe:'' @ newline @ newline @ ''a'' @ newline @ newline @ ''b'')]]"
    by auto
  from analysis_prompt_is_built_from_the_context [of answering "''gpt-4o''" None "[]" ?t1]
  obtain sp1 where b: "map Messages (chat_requests (snd (AnalysisSubagent_Execute_v1 answering ''gpt-4o'' [] ?t1)))
      = [[system_message sp1,
          user_message (''Analyze the following information and describe:'' @ newline @ newline @ ''notes'')]]"
    by auto
  have conv: "map (\<lambda>req. Content (last (Messages req))) xs = map (\<lambda>ms. Content (last ms)) (map Messages xs)"
    for xs :: "ChatCompletionRequest list"
    by (simp add: comp_def)
  show ?thesis
    unfolding conv a b by (simp add: user_message_def)
qed

text \<open>
  C8, with the content being the entry without its header line, does not hold: for a
  context whose only entry is the report \<open>Hello\<close> followed by a newline under its
  header, the entry without its header line is \<open>Hello\<close> with the newline, but the second
  listing renders \<open>Hello\<close> (it trims the text) and the first listing, which never reads
  the context, renders the description.
\<close>

theorem render_content_counterexample:
  "render_content_v2 (sample_task TaskTypeRender [''context'' \<mapsto> StringSlice [report_entry]]) = ''Hello'' \<and>
   render_content_v2 (sample_task TaskTypeRender [''context'' \<mapsto> StringSlice [report_entry]])
     \<noteq> ''Hello'' @ newline \<and>
   render_content_v1 (sample_task TaskTypeRender [''context'' \<mapsto> StringSlice [report_entry]]) = ''describe''"
  by (simp add: render_content_v2_def render_content_v1_def param_string_def param_strings_def
      report_entry_def Contains_def HasPrefix_def after_header_def newline_def
      TrimSpace_def TrimLeft_def drop_rune_def space_runes_def Let_def)

lemma find_skips: "\<forall>e\<in>set xs. \<not> P e \<Longrightarrow> List.find P (xs @ ys) = List.find P ys"
  by (induction xs) simp_all

lemma find_most_recent:
  "P entry \<Longrightarrow> \<forall>e\<in>set later. \<not> P e \<Longrightarrow> List.find P (rev (earlier @ [entry] @ later)) = Some entry"
  using find_skips [of "rev later" P "entry # rev earlier"] by simp

lemma find_nothing: "\<forall>e\<in>set xs. \<not> P e \<Longrightarrow> List.find P (rev xs) = None"
  by (simp add: find_None_iff)

lemma Index_first_newline:
  "CHR 0x0A \<notin> set header \<Longrightarrow> Index (header @ CHR 0x0A # body) [CHR 0x0A] = int (length header)"
  by (induction header) (auto simp: HasPrefix_def Let_def)

lemma drop_past_newline: "drop (nat (int (length header) + 1)) (header @ CHR 0x0A # body) = body"
proof -
  have "nat (int (length header) + 1) = Suc (length header)" by simp
  then show ?thesis by simp
qed

lemma after_header_general:
  assumes "content = header @ CHR 0x0A # body" and "CHR 0x0A \<notin> set header"
  shows "after_header content = body"
proof -
  have "Index content newline = int (length header)"
    using assms Index_first_newline [of header body] by (simp add: newline_def)
  then show ?thesis
    unfolding after_header_def Let_def using assms(1) drop_past_newline [of header body] by simp
qed

lemma after_header_strips:
  "CHR 0x0A \<notin> set header \<Longrightarrow> after_header (header @ newline @ body) = body"
  using after_header_general [of "header @ newline @ body" header body] by (simp add: newline_def)

lemma after_output_from_general:
  assumes "Index content ''Output from '' = 0"
    and "content = header @ CHR 0x0A # body" and "CHR 0x0A \<notin> set header"
  shows "after_output_from content = body"
proof -
  have "Index content newline = int (length header)"
    using assms Index_first_newline [of header body] by (simp add: newline_def)
  then have "Index (drop (nat 0) content) newline = int (length header)" by simp
  then show ?thesis
    unfolding after_output_from_def Let_def assms(1)
    using assms(2) drop_past_newline [of header body] by simp
qed

lemma after_output_from_strips:
  assumes "CHR 0x0A \<notin> set header"
  shows "after_output_from (''Output from '' @ header @ newline @ body) = body"
proof -
  have "Index (''Output from '' @ header @ newline @ body) ''Output from '' = 0"
    by (simp add: HasPrefix_def)
  moreover have "''Output from '' @ header @ newline @ body = (''Output from '' @ header) @ CHR 0x0A # body"
    by (simp add: newline_def)
  moreover have "CHR 0x0A \<notin> set (''Output from '' @ header)" using assms by simp
  ultimately show ?thesis by (rule after_output_from_general)
qed

text \<open>
  C8, with the trimming and the first listing. In the second listing the content to render is, in this order:
  \<open>parameters.content\<close> if it is a string; else, for a context that is a non-empty
  sequence of strings, the most recent entry that contains \<open>Output from REPORT task:\<close>
  with its first line removed, and if there is none the last entry with everything up
  to the end of the line of its first \<open>Output from \<close> removed, in both cases trimmed of
  leading and trailing white space; else the description. For an entry that starts
  with its header line, what is removed is that header line. The output is the
  rendering of that content. In the first listing the content is \<open>parameters.content\<close>
  if it is a string and the description otherwise.
\<close>

theorem render_content_is_resolved_in_order:
  "(\<forall>content. Parameters task ''content'' = Some (String content) \<longrightarrow>
      render_content_v2 task = content \<and> render_content_v1 task = content) \<and>
   ((\<forall>content. Parameters task ''content'' \<noteq> Some (String content)) \<longrightarrow>
      render_content_v1 task = Description task \<and>
      (\<forall>ctxContent earlier entry later.
         Parameters task ''context'' = Some (StringSlice ctxContent) \<and>
         ctxContent = earlier @ [entry] @ later \<and>
         Contains entry ''Output from REPORT task:'' \<and>
         (\<forall>e\<in>set later. \<not> Contains e ''Output from REPORT task:'') \<longrightarrow>
         render_content_v2 task = TrimSpace (after_header entry)) \<and>
      (\<forall>ctxContent.
         Parameters task ''context'' = Some (StringSlice ctxContent) \<and> ctxContent \<noteq> [] \<and>
         (\<forall>e\<in>set ctxContent. \<not> Contains e ''Output from REPORT task:'') \<longrightarrow>
         render_content_v2 task = TrimSpace (after_output_from (last ctxContent))) \<and>
      ((\<forall>ctxContent. Parameters task ''context'' = Some (StringSlice ctxContent) \<longrightarrow> ctxContent = []) \<longrightarrow>
         render_content_v2 task = Description task)) \<and>
   (\<forall>header body. CHR 0x0A \<notin> set header \<longrightarrow>
      after_header (header @ newline @ body) = body \<and>
      after_output_from (''Output from '' @ header @ newline @ body) = body) \<and>
   Output (fst (fst (RenderSubagent_Execute_v2 markdown_Render gomarkdown_Render renderHTML interactionHandler task)))
     = (if renderHTML then gomarkdown_Render (render_content_v2 task)
        else markdown_Render (render_content_v2 task) 80 6) \<and>
   Output (fst (fst (RenderSubagent_Execute_v1 markdown_Render task)))
     = markdown_Render (render_content_v1 task) 80 6"
proof (intro conjI allI impI)
  fix content assume "Parameters task ''content'' = Some (String content)"
  then show "render_content_v2 task = content" and "render_content_v1 task = content"
    by (simp_all add: render_content_v2_def render_content_v1_def param_string_def)
next
  assume no: "\<forall>content. Parameters task ''content'' \<noteq> Some (String content)"
  then have ps: "param_string task ''content'' = None"
    by (auto simp: param_string_def split: option.splits any.splits)
  then show "render_content_v1 task = Description task"
    by (simp add: render_content_v1_def)
  {
    fix ctxContent earlier entry later
    assume a: "Parameters task ''context'' = Some (StringSlice ctxContent) \<and>
         ctxContent = earlier @ [entry] @ later \<and>
         Contains entry ''Output from REPORT task:'' \<and>
         (\<forall>e\<in>set later. \<not> Contains e ''Output from REPORT task:'')"
    then have "List.find (\<lambda>entry. Contains entry ''Output from REPORT task:'') (rev ctxContent) = Some entry"
      using find_most_recent [of "\<lambda>entry. Contains entry ''Output from REPORT task:''" entry later earlier]
      by simp
    with a ps show "render_content_v2 task = TrimSpace (after_header entry)"
      by (simp add: render_content_v2_def param_strings_def)
  }
  {
    fix ctxContent
    assume a: "Parameters task ''context'' = Some (StringSlice ctxContent) \<and> ctxContent \<noteq> [] \<and>
         (\<forall>e\<in>set ctxContent. \<not> Contains e ''Output from REPORT task:'')"
    then have "List.find (\<lambda>entry. Contains entry ''Output from REPORT task:'') (rev ctxContent) = None"
      using find_nothing [of ctxContent "\<lambda>entry. Contains entry ''Output from REPORT task:''"] by simp
    with a ps show "render_content_v2 task = TrimSpace (after_output_from (last ctxContent))"
      by (simp add: render_content_v2_def param_strings_def)
  }
  {
    assume "\<forall>ctxContent. Parameters task ''context'' = Some (StringSlice ctxContent) \<longrightarrow> ctxContent = []"
    with ps show "render_content_v2 task = Description task"
      by (auto simp: render_content_v2_def param_strings_def split: option.splits any.splits)
  }
next
  fix header :: string and body assume nl: "CHR 0x0A \<notin> set header"
  show "after_header (header @ newline @ body) = body"
    and "after_output_from (''Output from '' @ header @ newline @ body) = body"
    by (rule after_header_strips [OF nl]) (rule after_output_from_strips [OF nl])
next
  show "Output (fst (fst (RenderSubagent_Execute_v2 markdown_Render gomarkdown_Render renderHTML interactionHandler task)))
     = (if renderHTML then gomarkdown_Render (render_content_v2 task)
        else markdown_Render (render_content_v2 task) 80 6)"
    by (simp add: RenderSubagent_Execute_v2_def render_succeeded_def Let_def)
next
  show "Output (fst (fst (RenderSubagent_Execute_v1 markdown_Render task)))
     = markdown_Render (render_content_v1 task) 80 6"
    by (simp add: RenderSubagent_Execute_v1_def render_succeeded_def)
qed

theorem render_content_is_resolved_in_order_witness:
  "render_content_v2 (sample_task TaskTypeRender [''context'' \<mapsto> StringSlice sample_context]) = ''Hello'' \<and>
   Output (fst (fst (RenderSubagent_Execute_v2 sample_markdown_Render (\<lambda>content. content) False None
      (sample_task TaskTypeRender [''context'' \<mapsto> StringSlice sample_context]))))
     = ''[md] Hello''"
proof -
  let ?task = "sample_task TaskTypeRender [''context'' \<mapsto> StringSlice sample_context]"
  have no: "\<forall>content. Parameters ?task ''content'' \<noteq> Some (String content)"
    by simp
  have ctx: "Parameters ?task ''context'' = Some (StringSlice sample_context)"
    by simp
  have split: "sample_context = [''Output from SEARCH task:'' @ newline @ ''found''] @ [report_entry]
      @ [''Output from ANALYZE task:'' @ newline @ ''seen'']"
    by (simp add: sample_context_def)
  have has: "Contains report_entry ''Output from REPORT task:''"
    by (simp add: report_entry_def Contains_def HasPrefix_def)
  have later: "\<forall>e\<in>set [''Output from ANALYZE task:'' @ newline @ ''seen'']. \<not> Contains e ''Output from REPORT task:''"
    by (simp add: Contains_def HasPrefix_def newline_def Let_def)
  have stripped: "after_header report_entry = ''Hello'' @ newline"
    using after_header_strips [of "''Output from REPORT task:''" "''Hello'' @ newline"]
    by (simp add: report_entry_def)
  have trimmed: "TrimSpace (''Hello'' @ newline) = ''Hello''"
    by (simp add: TrimSpace_def TrimLeft_def drop_rune_def space_runes_def HasPrefix_def newline_def)
  from render_content_is_resolved_in_order
    [of ?task sample_markdown_Render "\<lambda>content. content" False None]
    no ctx split has later
  have content: "render_content_v2 ?task = TrimSpace (after_header report_entry)"
    and out: "Output (fst (fst (RenderSubagent_Execute_v2 sample_markdown_Render (\<lambda>content. content) False None ?task)))
      = sample_markdown_Render (render_content_v2 ?task) 80 6"
    by (blast, simp)
  from content out stripped trimmed show ?thesis
    by (simp add: sample_markdown_Render_def)
qed

end
